theory Spec2Isabelle
  imports Complex_Main
begin

section \<open>Data model\<close>

text \<open>
  The server (\<^verbatim>\<open>server.ts\<close>, the first document of \<^verbatim>\<open>src/unnamed/part_000\<close>) keeps its
  persistent state in three SQLite tables and its market state in two module-level
  objects, \<^verbatim>\<open>prices\<close> and \<^verbatim>\<open>candleData\<close>.

  Numbers: a finite JavaScript number is modelled as a \<^typ>\<open>real\<close>, so rounding and
  overflow of doubles are outside the model. A nullable \<^verbatim>\<open>REAL\<close> column, and a request
  field that may be absent, is a \<^typ>\<open>real option\<close>. A slot of \<^verbatim>\<open>prices\<close> holds
  \<open>Some p\<close> for a number \<open>p\<close> and \<open>None\<close> for anything the guard
  \<^verbatim>\<open>typeof currentPrice !== 'number' || isNaN(currentPrice)\<close> catches (a missing key,
  a non-number, \<^verbatim>\<open>NaN\<close>).

  Field names carry a prefix (\<open>p_\<close>, \<open>t_\<close>, \<open>c_\<close>) because \<open>id\<close>, \<open>size\<close>, \<open>open\<close> and
  others are constants of the logic; the rest of the name is the column's.
\<close>

type_synonym timestamp = nat

record user =
  balance :: real
  role :: string

record position =
  p_id :: nat
  p_user_id :: nat
  p_asset :: string
  p_size :: real
  p_type :: string
  p_entry_price :: real
  p_take_profit :: "real option"
  p_stop_loss :: "real option"
  p_close_price :: "real option"
  p_status :: string
  p_pnl :: real
  p_created_at :: timestamp
  p_closed_at :: "timestamp option"

record transaction_row =
  t_id :: nat
  t_user_id :: nat
  t_type :: string
  t_amount :: real
  t_status :: string
  t_method :: string
  t_reference :: string
  t_created_at :: timestamp

text \<open>
  The database: \<open>users\<close> keyed by the primary key, the other two tables as lists of rows
  in insertion order, and the two \<^verbatim>\<open>AUTOINCREMENT\<close> counters.
\<close>

record db =
  users :: "nat \<rightharpoonup> user"
  positions :: "position list"
  transactions :: "transaction_row list"
  positions_seq :: nat
  transactions_seq :: nat

record candle =
  c_time :: int
  c_open :: real
  c_high :: real
  c_low :: real
  c_close :: real

record market =
  prices :: "string \<rightharpoonup> real"
  candleData :: "string \<times> string \<Rightarrow> candle list"

section \<open>Statements, faults and transactions\<close>

datatype error = StorageFault | TypeError

datatype response =
    Json_id nat
  | Json_pnl real
  | Json_message string
  | Json_success
  | Status nat string
  | Thrown error

text \<open>
  A prepared statement's \<^verbatim>\<open>run\<close> either applies its effect or throws; whether it throws
  is an input of the model (a fault plan gives one flag to each statement of a unit).
\<close>

definition run :: "bool \<Rightarrow> (db \<Rightarrow> db) \<Rightarrow> db \<Rightarrow> error + db" where
  "run fault stmt d = (if fault then Inl StorageFault else Inr (stmt d))"

definition and_then :: "error + db \<Rightarrow> (db \<Rightarrow> error + db) \<Rightarrow> error + db" where
  "and_then r f = (case r of Inl e \<Rightarrow> Inl e | Inr d \<Rightarrow> f d)"

text \<open>
  \<^verbatim>\<open>db.transaction(fn)()\<close> of better-sqlite3: begin, run \<^verbatim>\<open>fn\<close>, commit; when \<^verbatim>\<open>fn\<close>
  throws, roll back to the state at begin and rethrow.
\<close>

definition transaction :: "(db \<Rightarrow> error + db) \<Rightarrow> db \<Rightarrow> error option \<times> db" where
  "transaction body d = (case body d of Inl e \<Rightarrow> (Some e, d) | Inr d' \<Rightarrow> (None, d'))"

definition no_faults :: "nat \<Rightarrow> bool" where
  "no_faults k = False"

text \<open>
  \<^verbatim>\<open>UPDATE positions SET status = 'closed', close_price = ?, pnl = ?,
  closed_at = CURRENT_TIMESTAMP WHERE id = ?\<close>
\<close>

definition update_position_closed :: "real \<Rightarrow> real \<Rightarrow> timestamp \<Rightarrow> nat \<Rightarrow> db \<Rightarrow> db" where
  "update_position_closed close_price pnl ts pid d =
     d\<lparr>positions :=
         map (\<lambda>p. if p_id p = pid
                   then p\<lparr>p_status := ''closed'', p_close_price := Some close_price,
                          p_pnl := pnl, p_closed_at := Some ts\<rparr>
                   else p)
             (positions d)\<rparr>"

text \<open>\<^verbatim>\<open>UPDATE users SET balance = balance + ? WHERE id = ?\<close>\<close>

definition update_balance_add :: "real \<Rightarrow> nat \<Rightarrow> db \<Rightarrow> db" where
  "update_balance_add amount uid d =
     (case users d uid of
        None \<Rightarrow> d
      | Some u \<Rightarrow> d\<lparr>users := (users d)(uid \<mapsto> u\<lparr>balance := balance u + amount\<rparr>)\<rparr>)"

text \<open>\<^verbatim>\<open>UPDATE users SET balance = balance - ? WHERE id = ?\<close>\<close>

definition update_balance_sub :: "real \<Rightarrow> nat \<Rightarrow> db \<Rightarrow> db" where
  "update_balance_sub amount uid d =
     (case users d uid of
        None \<Rightarrow> d
      | Some u \<Rightarrow> d\<lparr>users := (users d)(uid \<mapsto> u\<lparr>balance := balance u - amount\<rparr>)\<rparr>)"

text \<open>\<^verbatim>\<open>UPDATE transactions SET status = 'approved' WHERE id = ?\<close>\<close>

definition update_transaction_approved :: "nat \<Rightarrow> db \<Rightarrow> db" where
  "update_transaction_approved tx_id d =
     d\<lparr>transactions :=
         map (\<lambda>t. if t_id t = tx_id then t\<lparr>t_status := ''approved''\<rparr> else t)
             (transactions d)\<rparr>"

text \<open>
  \<^verbatim>\<open>INSERT INTO positions (user_id, asset, size, type, entry_price, take_profit,
  stop_loss) VALUES (...)\<close>; the other columns take their defaults.
\<close>

definition insert_position ::
  "timestamp \<Rightarrow> nat \<Rightarrow> string \<Rightarrow> real \<Rightarrow> string \<Rightarrow> real \<Rightarrow> real option \<Rightarrow> real option \<Rightarrow> db \<Rightarrow> db" where
  "insert_position ts uid asset sz ty entry_price tp sl d =
     d\<lparr>positions := positions d @
          [\<lparr>p_id = positions_seq d + 1, p_user_id = uid, p_asset = asset, p_size = sz,
            p_type = ty, p_entry_price = entry_price, p_take_profit = tp, p_stop_loss = sl,
            p_close_price = None, p_status = ''open'', p_pnl = 0, p_created_at = ts,
            p_closed_at = None\<rparr>],
       positions_seq := positions_seq d + 1\<rparr>"

text \<open>
  \<^verbatim>\<open>INSERT INTO transactions (user_id, type, amount, method, reference, status)
  VALUES (?, <type>, ?, ?, ?, 'pending')\<close>
\<close>

definition insert_transaction ::
  "timestamp \<Rightarrow> nat \<Rightarrow> string \<Rightarrow> real \<Rightarrow> string \<Rightarrow> string \<Rightarrow> db \<Rightarrow> db" where
  "insert_transaction ts uid ty amount method reference d =
     d\<lparr>transactions := transactions d @
          [\<lparr>t_id = transactions_seq d + 1, t_user_id = uid, t_type = ty, t_amount = amount,
            t_status = ''pending'', t_method = method, t_reference = reference,
            t_created_at = ts\<rparr>],
       transactions_seq := transactions_seq d + 1\<rparr>"

section \<open>Trading endpoints\<close>

text \<open>
  JavaScript truthiness of a nullable number: \<^verbatim>\<open>null\<close> and \<^verbatim>\<open>0\<close> are falsy.
  \<open>or_null v\<close> is \<^verbatim>\<open>v || null\<close>.
\<close>

definition truthy :: "real option \<Rightarrow> bool" where
  "truthy v = (case v of None \<Rightarrow> False | Some x \<Rightarrow> x \<noteq> 0)"

definition or_null :: "real option \<Rightarrow> real option" where
  "or_null v = (if truthy v then v else None)"

text \<open>\<^verbatim>\<open>POST /api/positions/open\<close> (lines 121-137).\<close>

definition open_position ::
  "(nat \<Rightarrow> bool) \<Rightarrow> timestamp \<Rightarrow> nat \<Rightarrow> string \<Rightarrow> real \<Rightarrow> string \<Rightarrow> real
     \<Rightarrow> real option \<Rightarrow> real option \<Rightarrow> db \<Rightarrow> response \<times> db" where
  "open_position faults ts uid asset sz ty entry_price take_profit stop_loss d =
     (case users d uid of
        None \<Rightarrow> (Thrown TypeError, d)
      | Some usr \<Rightarrow>
          (let marginRequired = (sz * entry_price) / 100 in
           if balance usr < marginRequired then (Status 400 ''Insufficient margin'', d)
           else
             (case run (faults 0)
                     (insert_position ts uid asset sz ty entry_price
                        (or_null take_profit) (or_null stop_loss)) d of
                Inl e \<Rightarrow> (Thrown e, d)
              | Inr d' \<Rightarrow> (Json_id (positions_seq d'), d'))))"

text \<open>The profit/loss computation of the manual close (lines 147-152).\<close>

definition close_pnl :: "position \<Rightarrow> real \<Rightarrow> real" where
  "close_pnl position close_price =
     (if p_type position = ''BUY''
      then (close_price - p_entry_price position) * p_size position
      else (p_entry_price position - close_price) * p_size position)"

text \<open>The unit of lines 154-157 and of lines 354-357: two statements in one transaction.\<close>

definition settle :: "(nat \<Rightarrow> bool) \<Rightarrow> timestamp \<Rightarrow> nat \<Rightarrow> nat \<Rightarrow> real \<Rightarrow> real \<Rightarrow> db \<Rightarrow> error option \<times> db" where
  "settle faults ts pid uid close_price pnl d =
     transaction
       (\<lambda>d0. and_then (run (faults 0) (update_position_closed close_price pnl ts pid) d0)
                      (run (faults 1) (update_balance_add pnl uid)))
       d"

text \<open>\<^verbatim>\<open>POST /api/positions/close\<close> (lines 139-160).\<close>

definition close_position ::
  "(nat \<Rightarrow> bool) \<Rightarrow> timestamp \<Rightarrow> nat \<Rightarrow> nat \<Rightarrow> real \<Rightarrow> db \<Rightarrow> response \<times> db" where
  "close_position faults ts uid position_id close_price d =
     (case find (\<lambda>p. p_id p = position_id \<and> p_user_id p = uid) (positions d) of
        None \<Rightarrow> (Status 400 ''Invalid position'', d)
      | Some position \<Rightarrow>
          if p_status position \<noteq> ''open'' then (Status 400 ''Invalid position'', d)
          else
            (let pnl = close_pnl position close_price in
             case settle faults ts position_id uid close_price pnl d of
               (Some e, d') \<Rightarrow> (Thrown e, d')
             | (None, d') \<Rightarrow> (Json_pnl pnl, d')))"

section \<open>Wallet and admin endpoints\<close>

text \<open>\<^verbatim>\<open>POST /api/wallet/deposit\<close> (lines 173-179).\<close>

definition deposit ::
  "(nat \<Rightarrow> bool) \<Rightarrow> timestamp \<Rightarrow> nat \<Rightarrow> real \<Rightarrow> string \<Rightarrow> string \<Rightarrow> db \<Rightarrow> response \<times> db" where
  "deposit faults ts uid amount method reference d =
     (case run (faults 0) (insert_transaction ts uid ''deposit'' amount method reference) d of
        Inl e \<Rightarrow> (Thrown e, d)
      | Inr d' \<Rightarrow> (Json_message ''Deposit request submitted'', d'))"

text \<open>\<^verbatim>\<open>POST /api/wallet/withdraw\<close> (lines 181-196).\<close>

definition withdraw ::
  "(nat \<Rightarrow> bool) \<Rightarrow> timestamp \<Rightarrow> nat \<Rightarrow> real \<Rightarrow> string \<Rightarrow> string \<Rightarrow> db \<Rightarrow> response \<times> db" where
  "withdraw faults ts uid amount method reference d =
     (case users d uid of
        None \<Rightarrow> (Thrown TypeError, d)
      | Some usr \<Rightarrow>
          if balance usr < amount then (Status 400 ''Insufficient balance'', d)
          else
            (case transaction
                    (\<lambda>d0. and_then
                             (run (faults 0)
                                (insert_transaction ts uid ''withdrawal'' amount method reference) d0)
                             (run (faults 1) (update_balance_sub amount uid)))
                    d of
               (Some e, d') \<Rightarrow> (Thrown e, d')
             | (None, d') \<Rightarrow> (Json_message ''Withdrawal request submitted'', d')))"

text \<open>
  \<^verbatim>\<open>POST /api/admin/transactions/approve\<close> (lines 222-237). \<open>req_role\<close> is the role
  carried by the caller's token.
\<close>

definition approve :: "(nat \<Rightarrow> bool) \<Rightarrow> string \<Rightarrow> nat \<Rightarrow> db \<Rightarrow> response \<times> db" where
  "approve faults req_role tx_id d =
     (if req_role \<noteq> ''admin'' then (Status 403 ''Forbidden'', d)
      else
        (case find (\<lambda>t. t_id t = tx_id) (transactions d) of
           None \<Rightarrow> (Status 400 ''Invalid transaction'', d)
         | Some tx \<Rightarrow>
             if t_status tx = ''pending'' then
               (case transaction
                       (\<lambda>d0. and_then
                                (run (faults 0) (update_transaction_approved tx_id) d0)
                                (\<lambda>d1. if t_type tx = ''deposit''
                                       then run (faults 1)
                                              (update_balance_add (t_amount tx) (t_user_id tx)) d1
                                       else Inr d1))
                       d of
                  (Some e, d') \<Rightarrow> (Thrown e, d')
                | (None, d') \<Rightarrow> (Json_success, d'))
             else (Status 400 ''Invalid transaction'', d)))"

section \<open>The simulated market\<close>

definition assets :: "string list" where
  "assets = [''EUR/USD'', ''GBP/USD'', ''USD/JPY'', ''BTC/USD'', ''ETH/USD'', ''GOLD'', ''OIL'']"

text \<open>The initial \<^verbatim>\<open>prices\<close> object, and the \<^verbatim>\<open>defaults\<close> table of the guard (same values).\<close>

definition defaults :: "(string \<times> real) list" where
  "defaults =
     [(''EUR/USD'', 1.08542), (''GBP/USD'', 1.26415), (''USD/JPY'', 150.243),
      (''BTC/USD'', 62450.50), (''ETH/USD'', 3420.75), (''GOLD'', 2034.50), (''OIL'', 78.45)]"

definition timeframes :: "(string \<times> int) list" where
  "timeframes =
     [(''1m'', 60), (''5m'', 300), (''15m'', 900), (''30m'', 1800),
      (''1h'', 3600), (''3h'', 10800), (''12h'', 43200), (''24h'', 86400)]"

definition init_market :: market where
  "init_market = \<lparr>prices = map_of defaults, candleData = (\<lambda>k. [])\<rparr>"

text \<open>\<^verbatim>\<open>s.includes(sub)\<close>: \<open>sub\<close> occurs in \<open>s\<close> as a contiguous substring.\<close>

fun str_includes :: "string \<Rightarrow> string \<Rightarrow> bool" where
  "str_includes [] sub = (sub = [])"
| "str_includes (c # cs) sub = (take (length sub) (c # cs) = sub \<or> str_includes cs sub)"

definition volatility :: "string \<Rightarrow> real" where
  "volatility asset = (if str_includes asset ''USD/'' then 0.0001 else 0.001)"

text \<open>\<^verbatim>\<open>defaults[asset] || 1.0\<close>\<close>

definition default_price :: "string \<Rightarrow> real" where
  "default_price asset =
     (case map_of defaults asset of
        None \<Rightarrow> 1.0
      | Some v \<Rightarrow> if v = 0 then 1.0 else v)"

text \<open>
  The body of the loop over \<^verbatim>\<open>Object.entries(timeframes)\<close> (lines 290-311) on one series:
  \<open>now\<close> is in whole seconds, so \<^verbatim>\<open>Math.floor(now / tfSeconds)\<close> is integer division
  (\<open>div\<close> on \<^typ>\<open>int\<close> rounds down). The update of \<^verbatim>\<open>lastCandle\<close> writes into the last
  slot of the array.
\<close>

definition update_candles :: "candle list \<Rightarrow> int \<Rightarrow> real \<Rightarrow> int \<Rightarrow> candle list" where
  "update_candles candles tfSeconds price now =
     (let periodStart = (now div tfSeconds) * tfSeconds in
      if candles = [] \<or> c_time (last candles) < periodStart then
        (let pushed = candles @
               [\<lparr>c_time = periodStart, c_open = price, c_high = price, c_low = price,
                 c_close = price\<rparr>]
         in if length pushed > 200 then tl pushed else pushed)
      else
        (let lastCandle = last candles in
         candles[length candles - 1 :=
           lastCandle\<lparr>c_high := max (c_high lastCandle) price,
                      c_low := min (c_low lastCandle) price,
                      c_close := price\<rparr>]))"

text \<open>
  One iteration of \<^verbatim>\<open>assets.forEach\<close> (lines 269-312). \<open>rnd asset\<close> is the value
  \<^verbatim>\<open>Math.random()\<close> returns in this iteration and \<open>date_now asset\<close> the value of
  \<^verbatim>\<open>Date.now()\<close> (milliseconds). The \<^verbatim>\<open>return\<close> of the guard ends the iteration.
\<close>

definition tick_asset :: "(string \<Rightarrow> real) \<Rightarrow> (string \<Rightarrow> int) \<Rightarrow> string \<Rightarrow> market \<Rightarrow> market" where
  "tick_asset rnd date_now asset m =
     (case prices m asset of
        None \<Rightarrow> m\<lparr>prices := (prices m)(asset \<mapsto> default_price asset)\<rparr>
      | Some currentPrice \<Rightarrow>
          (let change = (rnd asset - 0.5) * (currentPrice * volatility asset);
               price = currentPrice + change;
               now = date_now asset div 1000
           in m\<lparr>prices := (prices m)(asset \<mapsto> price),
                 candleData :=
                   fold (\<lambda>(tfKey, tfSeconds) cd.
                           cd((asset, tfKey) :=
                                update_candles (cd (asset, tfKey)) tfSeconds price now))
                        timeframes (candleData m)\<rparr>))"

definition tick_market :: "(string \<Rightarrow> real) \<Rightarrow> (string \<Rightarrow> int) \<Rightarrow> market \<Rightarrow> market" where
  "tick_market rnd date_now m = fold (tick_asset rnd date_now) assets m"

text \<open>A run of the market from its initial state: one pair of inputs per tick.\<close>

fun run_ticks :: "((string \<Rightarrow> real) \<times> (string \<Rightarrow> int)) list \<Rightarrow> market \<Rightarrow> market" where
  "run_ticks [] m = m"
| "run_ticks ((rnd, date_now) # ts) m = run_ticks ts (tick_market rnd date_now m)"

section \<open>Take-profit and stop-loss\<close>

text \<open>
  A comparison with a price that is not a number (\<^verbatim>\<open>prices[pos.asset]\<close> of an unknown
  asset is \<^verbatim>\<open>undefined\<close>) is false.
\<close>

definition js_ge :: "real option \<Rightarrow> real \<Rightarrow> bool" where
  "js_ge cur t = (case cur of None \<Rightarrow> False | Some c \<Rightarrow> c \<ge> t)"

definition js_le :: "real option \<Rightarrow> real \<Rightarrow> bool" where
  "js_le cur t = (case cur of None \<Rightarrow> False | Some c \<Rightarrow> c \<le> t)"

text \<open>
  \<^verbatim>\<open>pos.take_profit && currentPrice >= pos.take_profit\<close> and its three siblings: the
  threshold is truthy and the comparison holds.
\<close>

definition hit_ge :: "real option \<Rightarrow> real option \<Rightarrow> bool" where
  "hit_ge threshold cur = (case threshold of None \<Rightarrow> False | Some t \<Rightarrow> t \<noteq> 0 \<and> js_ge cur t)"

definition hit_le :: "real option \<Rightarrow> real option \<Rightarrow> bool" where
  "hit_le threshold cur = (case threshold of None \<Rightarrow> False | Some t \<Rightarrow> t \<noteq> 0 \<and> js_le cur t)"

text \<open>
  Lines 325-344. The result stands for the pair of \<^verbatim>\<open>shouldClose\<close> and
  \<^verbatim>\<open>closePrice\<close>: \<open>None\<close> when \<^verbatim>\<open>shouldClose\<close> stays false (the initial
  \<^verbatim>\<open>closePrice = currentPrice\<close> is then never read), \<open>Some c\<close> when it is set, with
  \<^verbatim>\<open>closePrice = c\<close>.
\<close>

definition check_tp_sl :: "position \<Rightarrow> real option \<Rightarrow> real option" where
  "check_tp_sl pos currentPrice =
     (if p_type pos = ''BUY'' then
        (if hit_ge (p_take_profit pos) currentPrice then p_take_profit pos
         else if hit_le (p_stop_loss pos) currentPrice then p_stop_loss pos
         else None)
      else
        (if hit_le (p_take_profit pos) currentPrice then p_take_profit pos
         else if hit_ge (p_stop_loss pos) currentPrice then p_stop_loss pos
         else None))"

text \<open>The profit/loss computation of the tick (lines 346-352).\<close>

definition tick_pnl :: "position \<Rightarrow> real \<Rightarrow> real" where
  "tick_pnl pos closePrice =
     (if p_type pos = ''BUY''
      then (closePrice - p_entry_price pos) * p_size pos
      else (p_entry_price pos - closePrice) * p_size pos)"

text \<open>One iteration of \<^verbatim>\<open>openPositions.forEach\<close> (lines 323-359).\<close>

definition tick_position ::
  "(nat \<Rightarrow> bool) \<Rightarrow> timestamp \<Rightarrow> (string \<rightharpoonup> real) \<Rightarrow> position \<Rightarrow> db \<Rightarrow> error option \<times> db" where
  "tick_position faults ts prs pos d =
     (case check_tp_sl pos (prs (p_asset pos)) of
        None \<Rightarrow> (None, d)
      | Some closePrice \<Rightarrow>
          settle faults ts (p_id pos) (p_user_id pos) closePrice (tick_pnl pos closePrice) d)"

text \<open>
  The loop: an exception thrown by a settlement leaves \<^verbatim>\<open>forEach\<close>, so the positions
  after it are not visited in this tick. \<open>faults\<close> gives a fault plan to each position id.
\<close>

fun tick_positions ::
  "(nat \<Rightarrow> nat \<Rightarrow> bool) \<Rightarrow> timestamp \<Rightarrow> (string \<rightharpoonup> real) \<Rightarrow> position list \<Rightarrow> db
     \<Rightarrow> error option \<times> db" where
  "tick_positions faults ts prs [] d = (None, d)"
| "tick_positions faults ts prs (pos # rest) d =
     (case tick_position (faults (p_id pos)) ts prs pos d of
        (Some e, d') \<Rightarrow> (Some e, d')
      | (None, d') \<Rightarrow> tick_positions faults ts prs rest d')"

text \<open>
  \<^verbatim>\<open>SELECT * FROM positions WHERE status = 'open'\<close>, then the loop (lines 322-359).
\<close>

definition check_positions ::
  "(nat \<Rightarrow> nat \<Rightarrow> bool) \<Rightarrow> timestamp \<Rightarrow> (string \<rightharpoonup> real) \<Rightarrow> db \<Rightarrow> error option \<times> db" where
  "check_positions faults ts prs d =
     tick_positions faults ts prs (filter (\<lambda>p. p_status p = ''open'') (positions d)) d"

text \<open>
  The callback of \<^verbatim>\<open>setInterval\<close> (lines 268-361) without the broadcast, which changes
  neither the market nor the database.
\<close>

definition tick ::
  "(string \<Rightarrow> real) \<Rightarrow> (string \<Rightarrow> int) \<Rightarrow> (nat \<Rightarrow> nat \<Rightarrow> bool) \<Rightarrow> timestamp \<Rightarrow> market \<times> db
     \<Rightarrow> error option \<times> market \<times> db" where
  "tick rnd date_now faults ts st =
     (let m = tick_market rnd date_now (fst st);
          r = check_positions faults ts (prices m) (snd st)
      in (fst r, m, snd r))"

section \<open>Example data\<close>

text \<open>
  Concrete rows used to exercise the statements below: a long position with entry 1.1000,
  size 1 and take-profit 1.1050, and a short one with entry 2000, size 0.5 and stop-loss
  2010; a position with no threshold set; a database holding the first two.
\<close>

definition ex_long :: position where
  "ex_long = \<lparr>p_id = 1, p_user_id = 7, p_asset = ''EUR/USD'', p_size = 1, p_type = ''BUY'',
     p_entry_price = 1.1, p_take_profit = Some 1.105, p_stop_loss = Some 1.09, p_close_price = None,
     p_status = ''open'', p_pnl = 0, p_created_at = 0, p_closed_at = None\<rparr>"

definition ex_short :: position where
  "ex_short = \<lparr>p_id = 2, p_user_id = 7, p_asset = ''GOLD'', p_size = 0.5, p_type = ''SELL'',
     p_entry_price = 2000, p_take_profit = Some 1990, p_stop_loss = Some 2010, p_close_price = None,
     p_status = ''open'', p_pnl = 0, p_created_at = 0, p_closed_at = None\<rparr>"

definition ex_db :: db where
  "ex_db = \<lparr>users = [7 \<mapsto> \<lparr>balance = 10000, role = ''user''\<rparr>],
            positions = [ex_long, ex_short], transactions = [],
            positions_seq = 2, transactions_seq = 0\<rparr>"

definition ex_prices :: "string \<rightharpoonup> real" where
  "ex_prices = [''EUR/USD'' \<mapsto> 1.106, ''GOLD'' \<mapsto> 2015]"

definition ex_unset :: position where
  "ex_unset = \<lparr>p_id = 3, p_user_id = 7, p_asset = ''OIL'', p_size = 2, p_type = ''BUY'',
     p_entry_price = 78, p_take_profit = None, p_stop_loss = Some 0, p_close_price = None,
     p_status = ''open'', p_pnl = 0, p_created_at = 0, p_closed_at = None\<rparr>"

text \<open>A fault plan under which the second statement of a unit throws.\<close>

definition fault_second :: "nat \<Rightarrow> bool" where
  "fault_second k = (k = 1)"

definition ex_zero_tp :: position where
  "ex_zero_tp = \<lparr>p_id = 4, p_user_id = 7, p_asset = ''OIL'', p_size = 2, p_type = ''SELL'',
     p_entry_price = 78, p_take_profit = Some 0, p_stop_loss = Some 80, p_close_price = None,
     p_status = ''open'', p_pnl = 0, p_created_at = 0, p_closed_at = None\<rparr>"

text \<open>A database with a pending deposit and a pending withdrawal of user 7.\<close>

definition ex_deposit :: transaction_row where
  "ex_deposit = \<lparr>t_id = 1, t_user_id = 7, t_type = ''deposit'', t_amount = 250,
     t_status = ''pending'', t_method = ''mpesa'', t_reference = ''R1'', t_created_at = 0\<rparr>"

definition ex_withdrawal :: transaction_row where
  "ex_withdrawal = \<lparr>t_id = 2, t_user_id = 7, t_type = ''withdrawal'', t_amount = 100,
     t_status = ''pending'', t_method = ''mpesa'', t_reference = ''R2'', t_created_at = 0\<rparr>"

definition ex_wallet_db :: db where
  "ex_wallet_db = \<lparr>users = [7 \<mapsto> \<lparr>balance = 9900, role = ''user''\<rparr>],
            positions = [], transactions = [ex_deposit, ex_withdrawal],
            positions_seq = 0, transactions_seq = 2\<rparr>"

text \<open>A one-candle series of the 60-second timeframe, opened at 1.5 in the period of 120.\<close>

definition ex_candle :: candle where
  "ex_candle = \<lparr>c_time = 120, c_open = 1.5, c_high = 1.6, c_low = 1.4, c_close = 1.45\<rparr>"

text \<open>
  Inputs of a tick: every draw of \<^verbatim>\<open>Math.random()\<close> is 0.75 and the clock stands at
  125000 ms. Two markets with one damaged slot: the price of EUR/USD is not a number, and
  the price of GOLD is the number -2.
\<close>

definition ex_rnd :: "string \<Rightarrow> real" where
  "ex_rnd asset = 0.75"

definition ex_clock :: "string \<Rightarrow> int" where
  "ex_clock asset = 125000"

definition ex_corrupt :: market where
  "ex_corrupt = init_market\<lparr>prices := (prices init_market)(''EUR/USD'' := None)\<rparr>"

definition ex_negative :: market where
  "ex_negative = init_market\<lparr>prices := (prices init_market)(''GOLD'' \<mapsto> - 2)\<rparr>"

section \<open>Well-formed series\<close>

text \<open>
  The shape every series of a timeframe of \<open>tf\<close> seconds is expected to keep: each candle
  has its open and close between its low and high and starts at a multiple of \<open>tf\<close>, the
  start times increase strictly, and at most 200 candles are held.
\<close>

definition candle_ok :: "int \<Rightarrow> candle \<Rightarrow> bool" where
  "candle_ok tf c =
     (c_low c \<le> c_open c \<and> c_open c \<le> c_high c \<and> c_low c \<le> c_close c
      \<and> c_close c \<le> c_high c \<and> c_time c mod tf = 0)"

definition series_ok :: "int \<Rightarrow> candle list \<Rightarrow> bool" where
  "series_ok tf cs =
     (list_all (candle_ok tf) cs \<and> sorted_wrt (<) (map c_time cs) \<and> length cs \<le> 200)"

section \<open>The scan of the open positions, step by step\<close>

text \<open>
  Names for the parts of one pass of the loop of lines 323-359, used to state what the loop
  does as a whole: the effect on the database of visiting one position without a fault, the
  condition under which the visit throws, and the profit/loss a visit credits.
\<close>

definition scan_step :: "timestamp \<Rightarrow> (string \<rightharpoonup> real) \<Rightarrow> position \<Rightarrow> db \<Rightarrow> db" where
  "scan_step ts prs pos d =
     (case check_tp_sl pos (prs (p_asset pos)) of
        None \<Rightarrow> d
      | Some c \<Rightarrow>
          update_balance_add (tick_pnl pos c) (p_user_id pos)
            (update_position_closed c (tick_pnl pos c) ts (p_id pos) d))"

definition throws :: "(nat \<Rightarrow> nat \<Rightarrow> bool) \<Rightarrow> (string \<rightharpoonup> real) \<Rightarrow> position \<Rightarrow> bool" where
  "throws faults prs pos =
     (check_tp_sl pos (prs (p_asset pos)) \<noteq> None
      \<and> (faults (p_id pos) 0 \<or> faults (p_id pos) 1))"

definition row_pnl :: "(string \<rightharpoonup> real) \<Rightarrow> position \<Rightarrow> real" where
  "row_pnl prs p =
     (case check_tp_sl p (prs (p_asset p)) of None \<Rightarrow> 0 | Some c \<Rightarrow> tick_pnl p c)"

text \<open>A fault plan for the scan: the second statement of the settlement of position 2 throws.\<close>

definition ex_faults :: "nat \<Rightarrow> nat \<Rightarrow> bool" where
  "ex_faults i k = (i = 2 \<and> k = 1)"

section \<open>Auxiliary facts\<close>

lemma hit_ge_Some: "hit_ge th (Some c) = (\<exists>t. th = Some t \<and> t \<noteq> 0 \<and> t \<le> c)"
  by (auto simp: hit_ge_def js_ge_def split: option.splits)

lemma hit_le_Some: "hit_le th (Some c) = (\<exists>t. th = Some t \<and> t \<noteq> 0 \<and> c \<le> t)"
  by (auto simp: hit_le_def js_le_def split: option.splits)

lemma hit_None [simp]: "hit_ge th None = False" "hit_le th None = False"
  by (auto simp: hit_ge_def hit_le_def js_ge_def js_le_def split: option.splits)

lemma hit_unset [simp]: "hit_ge None c = False" "hit_le None c = False"
  "hit_ge (Some 0) c = False" "hit_le (Some 0) c = False"
  by (auto simp: hit_ge_def hit_le_def)

lemma settle_cases:
  "settle f ts pid uid c pnl d =
     (if f 0 \<or> f 1 then (Some StorageFault, d)
      else (None, update_balance_add pnl uid (update_position_closed c pnl ts pid d)))"
  by (simp add: settle_def transaction_def run_def and_then_def)

lemma users_update_position_closed [simp]:
  "users (update_position_closed c pnl ts pid d) = users d"
  by (simp add: update_position_closed_def)

lemma positions_update_balance_add [simp]:
  "positions (update_balance_add a uid d) = positions d"
  by (simp add: update_balance_add_def split: option.splits)

lemma users_insert_position [simp]:
  "users (insert_position ts uid a sz ty e tp sl d) = users d"
  by (simp add: insert_position_def)

lemma users_insert_transaction [simp]:
  "users (insert_transaction ts uid ty amount m r d) = users d"
  by (simp add: insert_transaction_def)

lemma users_update_transaction_approved [simp]:
  "users (update_transaction_approved tx_id d) = users d"
  by (simp add: update_transaction_approved_def)

lemma transactions_update_balance_add [simp]:
  "transactions (update_balance_add a uid d) = transactions d"
  by (simp add: update_balance_add_def split: option.splits)

lemma update_candles_push:
  "candles = [] \<or> c_time (last candles) < (now div tf) * tf \<Longrightarrow>
   update_candles candles tf price now =
     (if length candles < 200 then candles else tl candles) @
       [\<lparr>c_time = (now div tf) * tf, c_open = price, c_high = price, c_low = price,
         c_close = price\<rparr>]"
  by (cases candles) (auto simp: update_candles_def Let_def)

lemma update_candles_merge:
  "candles \<noteq> [] \<Longrightarrow> \<not> c_time (last candles) < (now div tf) * tf \<Longrightarrow>
   update_candles candles tf price now =
     butlast candles @
       [(last candles)\<lparr>c_high := max (c_high (last candles)) price,
                       c_low := min (c_low (last candles)) price,
                       c_close := price\<rparr>]"
proof -
  assume ne: "candles \<noteq> []" and old: "\<not> c_time (last candles) < (now div tf) * tf"
  from ne obtain bs l where c: "candles = bs @ [l]"
    by (metis append_butlast_last_id)
  have "candles[length candles - 1 := x] = butlast candles @ [x]" for x
    by (simp add: c)
  with ne old show ?thesis
    by (simp add: update_candles_def Let_def)
qed

lemma distinct_timeframes: "distinct (map fst timeframes)"
  by (simp add: timeframes_def)

lemma distinct_assets: "distinct assets"
  by (simp add: assets_def)

lemma fold_timeframes:
  "distinct (map fst tfs) \<Longrightarrow>
   fold (\<lambda>(tfKey, tfSeconds) cd.
           cd((a, tfKey) := update_candles (cd (a, tfKey)) tfSeconds price now)) tfs cd (a', k)
   = (if a' = a
      then (case map_of tfs k of
              None \<Rightarrow> cd (a', k)
            | Some tf \<Rightarrow> update_candles (cd (a', k)) tf price now)
      else cd (a', k))"
proof (induction tfs arbitrary: cd)
  case Nil
  then show ?case by simp
next
  case (Cons x tfs)
  obtain k0 tf0 where x: "x = (k0, tf0)" by (cases x)
  from Cons.prems have d: "distinct (map fst tfs)" and n: "k0 \<notin> fst ` set tfs"
    by (simp_all add: x)
  from n have m: "map_of tfs k0 = None"
    by (simp add: map_of_eq_None_iff)
  show ?case
    using Cons.IH [OF d] m by (auto simp: x split: option.splits)
qed

lemma candleData_tick_asset:
  "candleData (tick_asset rnd dn a m) (a', k) =
     (if a' = a then
        (case prices m a of
           None \<Rightarrow> candleData m (a', k)
         | Some p \<Rightarrow>
             (case map_of timeframes k of
                None \<Rightarrow> candleData m (a', k)
              | Some tf \<Rightarrow>
                  update_candles (candleData m (a', k)) tf
                    (p + (rnd a - 0.5) * (p * volatility a)) (dn a div 1000)))
      else candleData m (a', k))"
  by (simp add: tick_asset_def Let_def fold_timeframes [OF distinct_timeframes]
      split: option.splits)

lemma prices_tick_asset:
  "prices (tick_asset rnd dn a m) a' =
     (if a' = a then
        (case prices m a of
           None \<Rightarrow> Some (default_price a)
         | Some p \<Rightarrow> Some (p + (rnd a - 0.5) * (p * volatility a)))
      else prices m a')"
  by (simp add: tick_asset_def Let_def split: option.splits)

lemma fold_tick_asset:
  "distinct as \<Longrightarrow>
   candleData (fold (tick_asset rnd dn) as m) (a, k) =
     (if a \<in> set as then candleData (tick_asset rnd dn a m) (a, k) else candleData m (a, k))
   \<and> prices (fold (tick_asset rnd dn) as m) a =
     (if a \<in> set as then prices (tick_asset rnd dn a m) a else prices m a)"
proof (induction as arbitrary: m)
  case Nil
  then show ?case by simp
next
  case (Cons x as)
  then have d: "distinct as" and nx: "x \<notin> set as"
    by simp_all
  show ?case
  proof (cases "a = x")
    case True
    with nx Cons.IH [OF d, of "tick_asset rnd dn x m"] show ?thesis
      by simp
  next
    case False
    then have "candleData (tick_asset rnd dn a (tick_asset rnd dn x m)) (a, k)
        = candleData (tick_asset rnd dn a m) (a, k)"
      and "prices (tick_asset rnd dn a (tick_asset rnd dn x m)) a
        = prices (tick_asset rnd dn a m) a"
      by (simp_all add: candleData_tick_asset prices_tick_asset split: option.splits)
    with False Cons.IH [OF d, of "tick_asset rnd dn x m"] show ?thesis
      by (simp add: candleData_tick_asset prices_tick_asset)
  qed
qed

lemma candleData_tick_market:
  "candleData (tick_market rnd dn m) (a, k) =
     (if a \<in> set assets then candleData (tick_asset rnd dn a m) (a, k) else candleData m (a, k))"
  by (simp add: tick_market_def fold_tick_asset [OF distinct_assets])

lemma prices_tick_market:
  "prices (tick_market rnd dn m) a =
     (if a \<in> set assets then prices (tick_asset rnd dn a m) a else prices m a)"
  by (simp add: tick_market_def fold_tick_asset [OF distinct_assets])

lemma map_of_timeframes: "(k, tf) \<in> set timeframes \<Longrightarrow> map_of timeframes k = Some tf"
  by (rule map_of_is_SomeI [OF distinct_timeframes])

lemma update_candles_not_Nil: "update_candles [] tf price now \<noteq> []"
  by (simp add: update_candles_def Let_def)

lemma sorted_times_le_last:
  "sorted_wrt (<) (map c_time cs) \<Longrightarrow> c \<in> set cs \<Longrightarrow> c_time c \<le> c_time (last cs)"
proof (induction cs)
  case Nil
  then show ?case by simp
next
  case (Cons x cs)
  show ?case
  proof (cases "cs = []")
    case True
    with Cons.prems show ?thesis by simp
  next
    case False
    then have l: "last cs \<in> set cs" by simp
    from Cons.prems False show ?thesis
      using Cons.IH l by (auto simp: less_imp_le)
  qed
qed

lemma series_ok_push:
  assumes ok: "series_ok tf cs"
    and new: "cs = [] \<or> c_time (last cs) < (now div tf) * tf"
  shows "series_ok tf (update_candles cs tf price now)"
proof -
  let ?fresh = "\<lparr>c_time = (now div tf) * tf, c_open = price, c_high = price, c_low = price,
                 c_close = price\<rparr>"
  have f: "candle_ok tf ?fresh"
    by (simp add: candle_ok_def)
  have lt: "c_time c < (now div tf) * tf" if "c \<in> set cs" for c
  proof -
    from that have "cs \<noteq> []" by auto
    with new have "c_time (last cs) < (now div tf) * tf" by simp
    moreover from ok that have "c_time c \<le> c_time (last cs)"
      by (simp add: series_ok_def sorted_times_le_last)
    ultimately show ?thesis by simp
  qed
  have app: "list_all (candle_ok tf) (cs @ [?fresh])
      \<and> sorted_wrt (<) (map c_time (cs @ [?fresh]))"
    using ok f lt by (auto simp: series_ok_def sorted_wrt_append)
  show ?thesis
  proof (cases "length cs < 200")
    case True
    with app show ?thesis
      by (simp add: update_candles_push [OF new] series_ok_def)
  next
    case False
    with ok have len: "length cs = 200"
      by (simp add: series_ok_def)
    then have ne: "cs \<noteq> []" by auto
    from app have "list_all (candle_ok tf) (tl (cs @ [?fresh]))
        \<and> sorted_wrt (<) (map c_time (tl (cs @ [?fresh])))"
      by (cases cs) simp_all
    with len have "series_ok tf (tl (cs @ [?fresh]))"
      by (simp add: series_ok_def)
    with ne False show ?thesis
      by (simp add: update_candles_push [OF new])
  qed
qed

lemma series_ok_merge:
  assumes ok: "series_ok tf cs"
    and ne: "cs \<noteq> []" and old: "\<not> c_time (last cs) < (now div tf) * tf"
  shows "series_ok tf (update_candles cs tf price now)"
proof -
  from ne obtain bs l where c: "cs = bs @ [l]"
    by (metis append_butlast_last_id)
  from ok have "candle_ok tf l"
    by (simp add: c series_ok_def)
  then have "candle_ok tf (l\<lparr>c_high := max (c_high l) price, c_low := min (c_low l) price,
      c_close := price\<rparr>)"
    by (auto simp: candle_ok_def)
  with ok show ?thesis
    unfolding update_candles_merge [OF ne old]
    by (simp add: c series_ok_def)
qed

lemma series_ok_update_candles:
  "series_ok tf cs \<Longrightarrow> series_ok tf (update_candles cs tf price now)"
  using series_ok_push series_ok_merge by blast

lemma series_ok_tick_market:
  assumes t: "(k, tf) \<in> set timeframes" and ok: "series_ok tf (candleData m (a, k))"
  shows "series_ok tf (candleData (tick_market rnd dn m) (a, k))"
  using ok
  by (simp add: candleData_tick_market candleData_tick_asset map_of_timeframes [OF t]
      series_ok_update_candles split: option.splits)

lemma series_ok_run_ticks:
  "(k, tf) \<in> set timeframes \<Longrightarrow> series_ok tf (candleData m (a, k)) \<Longrightarrow>
   series_ok tf (candleData (run_ticks ticks m) (a, k))"
proof (induction ticks arbitrary: m)
  case Nil
  then show ?case by simp
next
  case (Cons t ticks)
  obtain rnd dn where t: "t = (rnd, dn)" by (cases t)
  from Cons.prems have "series_ok tf (candleData (tick_market rnd dn m) (a, k))"
    by (intro series_ok_tick_market)
  with Cons.prems(1) show ?case
    by (simp add: t Cons.IH)
qed

lemma series_ok_init: "series_ok tf (candleData init_market (a, k))"
  by (simp add: init_market_def series_ok_def)

lemma tick_position_eq:
  "tick_position f ts prs pos d =
     (if check_tp_sl pos (prs (p_asset pos)) \<noteq> None \<and> (f 0 \<or> f 1)
      then (Some StorageFault, d) else (None, scan_step ts prs pos d))"
  by (simp add: tick_position_def scan_step_def settle_cases split: option.splits)

lemma tick_positions_eq:
  "tick_positions faults ts prs ps d =
     (if \<exists>p \<in> set ps. throws faults prs p then Some StorageFault else None,
      fold (scan_step ts prs) (takeWhile (\<lambda>p. \<not> throws faults prs p) ps) d)"
proof (induction ps arbitrary: d)
  case Nil
  then show ?case by simp
next
  case (Cons p ps)
  show ?case
  proof (cases "throws faults prs p")
    case True
    then have "tick_position (faults (p_id p)) ts prs p d = (Some StorageFault, d)"
      by (auto simp: tick_position_eq throws_def)
    with True show ?thesis
      by simp
  next
    case False
    then have "tick_position (faults (p_id p)) ts prs p d = (None, scan_step ts prs p d)"
      by (auto simp: tick_position_eq throws_def)
    with False show ?thesis
      by (simp add: Cons.IH)
  qed
qed

lemma positions_scan_step:
  "positions (scan_step ts prs p d) =
     map (\<lambda>r. if p_id r = p_id p
               then (case check_tp_sl p (prs (p_asset p)) of
                       None \<Rightarrow> r
                     | Some c \<Rightarrow> r\<lparr>p_status := ''closed'', p_close_price := Some c,
                                    p_pnl := tick_pnl p c, p_closed_at := Some ts\<rparr>)
               else r) (positions d)"
  by (cases "check_tp_sl p (prs (p_asset p))")
    (simp_all add: scan_step_def update_position_closed_def cong: if_cong)

lemma positions_fold_scan:
  "distinct (map p_id ps) \<Longrightarrow>
   positions (fold (scan_step ts prs) ps d) =
     map (\<lambda>r. case find (\<lambda>p. p_id p = p_id r) ps of
                 None \<Rightarrow> r
               | Some p \<Rightarrow>
                   (case check_tp_sl p (prs (p_asset p)) of
                      None \<Rightarrow> r
                    | Some c \<Rightarrow> r\<lparr>p_status := ''closed'', p_close_price := Some c,
                                   p_pnl := tick_pnl p c, p_closed_at := Some ts\<rparr>))
         (positions d)"
proof (induction ps arbitrary: d)
  case Nil
  then show ?case by simp
next
  case (Cons p ps)
  let ?W = "\<lambda>q r. case check_tp_sl q (prs (p_asset q)) of
                      None \<Rightarrow> r
                    | Some c \<Rightarrow> r\<lparr>p_status := ''closed'', p_close_price := Some c,
                                   p_pnl := tick_pnl q c, p_closed_at := Some ts\<rparr>"
  let ?G = "\<lambda>qs r. case find (\<lambda>q. p_id q = p_id r) qs of None \<Rightarrow> r | Some q \<Rightarrow> ?W q r"
  from Cons.prems have d: "distinct (map p_id ps)" and n: "p_id p \<notin> p_id ` set ps"
    by simp_all
  from n have "\<not> (\<exists>x. x \<in> set ps \<and> p_id x = p_id p)"
    by (auto simp: image_iff)
  then have f: "find (\<lambda>q. p_id q = p_id p) ps = None"
    by (simp add: find_None_iff)
  have i: "p_id (?W q r) = p_id r" for q r
    by (cases "check_tp_sl q (prs (p_asset q))") simp_all
  have pt: "?G ps (if p_id r = p_id p then ?W p r else r) = ?G (p # ps) r" for r
  proof (cases "p_id r = p_id p")
    case True
    with f have "find (\<lambda>q. p_id q = p_id (?W p r)) ps = None"
      by (simp only: i)
    with True show ?thesis
      by simp
  next
    case False
    then have "p_id p \<noteq> p_id r"
      by simp
    with False show ?thesis
      by simp
  qed
  have "positions (fold (scan_step ts prs) (p # ps) d)
      = map (?G ps) (positions (scan_step ts prs p d))"
    using Cons.IH [OF d, of "scan_step ts prs p d"] by simp
  also have "\<dots> = map (\<lambda>r. ?G ps (if p_id r = p_id p then ?W p r else r)) (positions d)"
    by (simp only: positions_scan_step list.map_comp comp_def)
  also have "\<dots> = map (?G (p # ps)) (positions d)"
    by (simp only: pt)
  finally show ?case .
qed

lemma find_by_id:
  assumes d: "distinct (map p_id rows)" and s: "set ps \<subseteq> set rows" and r: "r \<in> set rows"
  shows "find (\<lambda>p. p_id p = p_id r) ps = (if r \<in> set ps then Some r else None)"
proof -
  from d have inj: "inj_on p_id (set rows)"
    by (simp add: distinct_map)
  have eq: "p = r" if "p \<in> set ps" "p_id p = p_id r" for p
    using inj s r that by (auto dest: inj_onD)
  show ?thesis
  proof (cases "r \<in> set ps")
    case True
    then obtain q where q: "find (\<lambda>p. p_id p = p_id r) ps = Some q"
      by (cases "find (\<lambda>p. p_id p = p_id r) ps") (auto simp: find_None_iff)
    then have "q \<in> set ps" "p_id q = p_id r"
      by (auto simp: find_Some_iff)
    with eq q True show ?thesis by simp
  next
    case False
    with eq show ?thesis
      by (auto simp: find_None_iff)
  qed
qed

lemma users_scan_step:
  "users (scan_step ts prs p d) uid =
     (if uid = p_user_id p
      then map_option (\<lambda>u. u\<lparr>balance := balance u + row_pnl prs p\<rparr>) (users d uid)
      else users d uid)"
  by (cases "users d uid")
    (auto simp: scan_step_def row_pnl_def update_balance_add_def split: option.splits)

lemma users_fold_scan:
  "users (fold (scan_step ts prs) ps d) uid =
     map_option
       (\<lambda>u. u\<lparr>balance := balance u
                 + sum_list (map (row_pnl prs) (filter (\<lambda>p. p_user_id p = uid) ps))\<rparr>)
       (users d uid)"
proof (induction ps arbitrary: d)
  case Nil
  show ?case by (cases "users d uid") simp_all
next
  case (Cons p ps)
  let ?S = "sum_list (map (row_pnl prs) (filter (\<lambda>q. p_user_id q = uid) ps))"
  have ih: "users (fold (scan_step ts prs) (p # ps) d) uid =
      map_option (\<lambda>u. u\<lparr>balance := balance u + ?S\<rparr>) (users (scan_step ts prs p d) uid)"
    using Cons.IH [of "scan_step ts prs p d"] by simp
  show ?case
  proof (cases "uid = p_user_id p")
    case True
    then have 1: "users (scan_step ts prs p d) uid =
        map_option (\<lambda>u. u\<lparr>balance := balance u + row_pnl prs p\<rparr>) (users d uid)"
      by (simp add: users_scan_step)
    from True have 2: "sum_list (map (row_pnl prs) (filter (\<lambda>q. p_user_id q = uid) (p # ps)))
        = row_pnl prs p + ?S"
      by simp
    show ?thesis
      unfolding ih 1 2 by (cases "users d uid") (simp_all add: add.assoc)
  next
    case False
    then have 1: "users (scan_step ts prs p d) uid = users d uid"
      by (simp add: users_scan_step)
    from False have 2: "sum_list (map (row_pnl prs) (filter (\<lambda>q. p_user_id q = uid) (p # ps)))
        = ?S"
      by auto
    show ?thesis
      unfolding ih 1 2 ..
  qed
qed

lemma rest_fold_scan:
  "transactions (fold (scan_step ts prs) ps d) = transactions d
   \<and> positions_seq (fold (scan_step ts prs) ps d) = positions_seq d
   \<and> transactions_seq (fold (scan_step ts prs) ps d) = transactions_seq d"
proof (induction ps arbitrary: d)
  case Nil
  show ?case by simp
next
  case (Cons p ps)
  have "transactions (scan_step ts prs p d) = transactions d
   \<and> positions_seq (scan_step ts prs p d) = positions_seq d
   \<and> transactions_seq (scan_step ts prs p d) = transactions_seq d"
    by (auto simp: scan_step_def update_balance_add_def update_position_closed_def
        split: option.splits)
  then show ?case
    by (simp add: Cons.IH)
qed


lemma distinct_visited:
  assumes "distinct (map p_id rows)"
  shows "distinct (map p_id (takeWhile Q (filter P rows)))"
proof -
  from assms have "distinct (map p_id (filter P rows))"
    by (rule distinct_map_filter)
  moreover have "map p_id (takeWhile Q (filter P rows))
      = take (length (takeWhile Q (filter P rows))) (map p_id (filter P rows))"
    by (metis take_map takeWhile_eq_take)
  ultimately show ?thesis
    by (simp only: distinct_take)
qed

lemma check_positions_eq:
  assumes dist: "distinct (map p_id (positions d))"
  shows "fst (check_positions faults ts prs d) =
           (if \<exists>p \<in> set (filter (\<lambda>p. p_status p = ''open'') (positions d)). throws faults prs p
            then Some StorageFault else None)"
    and "positions (snd (check_positions faults ts prs d)) =
           map (\<lambda>r. if r \<in> set (takeWhile (\<lambda>p. \<not> throws faults prs p)
                                (filter (\<lambda>p. p_status p = ''open'') (positions d)))
                     then (case check_tp_sl r (prs (p_asset r)) of
                             None \<Rightarrow> r
                           | Some c \<Rightarrow> r\<lparr>p_status := ''closed'', p_close_price := Some c,
                                          p_pnl := tick_pnl r c, p_closed_at := Some ts\<rparr>)
                     else r) (positions d)"
    and "users (snd (check_positions faults ts prs d)) uid =
           map_option
             (\<lambda>u. u\<lparr>balance := balance u
                 + sum_list (map (row_pnl prs) (filter (\<lambda>p. p_user_id p = uid)
                     (takeWhile (\<lambda>p. \<not> throws faults prs p)
                                (filter (\<lambda>p. p_status p = ''open'') (positions d)))))\<rparr>)
             (users d uid)"
    and "transactions (snd (check_positions faults ts prs d)) = transactions d"
    and "positions_seq (snd (check_positions faults ts prs d)) = positions_seq d"
    and "transactions_seq (snd (check_positions faults ts prs d)) = transactions_seq d"
proof -
  let ?visited = "takeWhile (\<lambda>p. \<not> throws faults prs p)
                    (filter (\<lambda>p. p_status p = ''open'') (positions d))"
  have s: "snd (check_positions faults ts prs d) = fold (scan_step ts prs) ?visited d"
    by (simp add: check_positions_def tick_positions_eq)
  show "fst (check_positions faults ts prs d) =
           (if \<exists>p \<in> set (filter (\<lambda>p. p_status p = ''open'') (positions d)). throws faults prs p
            then Some StorageFault else None)"
    by (simp add: check_positions_def tick_positions_eq)
  have dv: "distinct (map p_id ?visited)"
    using dist by (rule distinct_visited)
  have sub: "set ?visited \<subseteq> set (positions d)"
    by (auto dest: set_takeWhileD)
  show "positions (snd (check_positions faults ts prs d)) =
           map (\<lambda>r. if r \<in> set ?visited
                     then (case check_tp_sl r (prs (p_asset r)) of
                             None \<Rightarrow> r
                           | Some c \<Rightarrow> r\<lparr>p_status := ''closed'', p_close_price := Some c,
                                          p_pnl := tick_pnl r c, p_closed_at := Some ts\<rparr>)
                     else r) (positions d)"
    unfolding s positions_fold_scan [OF dv]
    by (rule map_cong [OF refl]) (simp add: find_by_id [OF dist sub])
  show "users (snd (check_positions faults ts prs d)) uid =
           map_option
             (\<lambda>u. u\<lparr>balance := balance u
                 + sum_list (map (row_pnl prs) (filter (\<lambda>p. p_user_id p = uid) ?visited))\<rparr>)
             (users d uid)"
    unfolding s by (rule users_fold_scan)
  show "transactions (snd (check_positions faults ts prs d)) = transactions d"
    and "positions_seq (snd (check_positions faults ts prs d)) = positions_seq d"
    and "transactions_seq (snd (check_positions faults ts prs d)) = transactions_seq d"
    unfolding s by (simp_all add: rest_fold_scan)
qed

lemma throws_fun:
  "throws faults prs =
     (\<lambda>p. check_tp_sl p (prs (p_asset p)) \<noteq> None \<and> (faults (p_id p) 0 \<or> faults (p_id p) 1))"
  by (rule ext) (simp add: throws_def)

lemma row_pnl_fun:
  "row_pnl prs =
     (\<lambda>p. case check_tp_sl p (prs (p_asset p)) of None \<Rightarrow> 0 | Some c \<Rightarrow> tick_pnl p c)"
  by (rule ext) (simp add: row_pnl_def)

lemma scan_with_faults:
  "distinct (map p_id (positions d)) \<longrightarrow>
        (let opens = filter (\<lambda>p. p_status p = ''open'') (positions d);
             visited = takeWhile
                 (\<lambda>p. \<not> (check_tp_sl p (prs (p_asset p)) \<noteq> None
                         \<and> (faults (p_id p) 0 \<or> faults (p_id p) 1))) opens;
             res = check_positions faults ts prs d
         in fst res =
              (if \<exists>p \<in> set opens. check_tp_sl p (prs (p_asset p)) \<noteq> None
                         \<and> (faults (p_id p) 0 \<or> faults (p_id p) 1)
               then Some StorageFault else None)
            \<and> positions (snd res) =
                map (\<lambda>r. if r \<in> set visited
                          then (case check_tp_sl r (prs (p_asset r)) of
                               None \<Rightarrow> r
                             | Some c \<Rightarrow> r\<lparr>p_status := ''closed'', p_close_price := Some c,
                                            p_pnl := tick_pnl r c, p_closed_at := Some ts\<rparr>)
                          else r) (positions d)
            \<and> (\<forall>uid. users (snd res) uid =
                  map_option
                    (\<lambda>u. u\<lparr>balance := balance u
                        + sum_list
                            (map (\<lambda>p. case check_tp_sl p (prs (p_asset p)) of
                                         None \<Rightarrow> 0 | Some c \<Rightarrow> tick_pnl p c)
                               (filter (\<lambda>p. p_user_id p = uid) visited))\<rparr>)
                    (users d uid))
            \<and> transactions (snd res) = transactions d
            \<and> positions_seq (snd res) = positions_seq d
            \<and> transactions_seq (snd res) = transactions_seq d)"
proof
  assume dist: "distinct (map p_id (positions d))"
  note e = check_positions_eq [OF dist, where faults = faults and prs = prs and ts = ts,
      unfolded throws_fun row_pnl_fun]
  show "(let opens = filter (\<lambda>p. p_status p = ''open'') (positions d);
             visited = takeWhile
                 (\<lambda>p. \<not> (check_tp_sl p (prs (p_asset p)) \<noteq> None
                         \<and> (faults (p_id p) 0 \<or> faults (p_id p) 1))) opens;
             res = check_positions faults ts prs d
         in fst res =
              (if \<exists>p \<in> set opens. check_tp_sl p (prs (p_asset p)) \<noteq> None
                         \<and> (faults (p_id p) 0 \<or> faults (p_id p) 1)
               then Some StorageFault else None)
            \<and> positions (snd res) =
                map (\<lambda>r. if r \<in> set visited
                          then (case check_tp_sl r (prs (p_asset r)) of
                               None \<Rightarrow> r
                             | Some c \<Rightarrow> r\<lparr>p_status := ''closed'', p_close_price := Some c,
                                            p_pnl := tick_pnl r c, p_closed_at := Some ts\<rparr>)
                          else r) (positions d)
            \<and> (\<forall>uid. users (snd res) uid =
                  map_option
                    (\<lambda>u. u\<lparr>balance := balance u
                        + sum_list
                            (map (\<lambda>p. case check_tp_sl p (prs (p_asset p)) of
                                         None \<Rightarrow> 0 | Some c \<Rightarrow> tick_pnl p c)
                               (filter (\<lambda>p. p_user_id p = uid) visited))\<rparr>)
                    (users d uid))
            \<and> transactions (snd res) = transactions d
            \<and> positions_seq (snd res) = positions_seq d
            \<and> transactions_seq (snd res) = transactions_seq d)"
    unfolding Let_def
    by (intro conjI allI) (rule e)+
qed

lemma scan_without_faults:
  "distinct (map p_id (positions d)) \<longrightarrow>
        fst (check_positions (\<lambda>i. no_faults) ts prs d) = None
        \<and> positions (snd (check_positions (\<lambda>i. no_faults) ts prs d)) =
            map (\<lambda>r. if p_status r = ''open''
                      then (case check_tp_sl r (prs (p_asset r)) of
                               None \<Rightarrow> r
                             | Some c \<Rightarrow> r\<lparr>p_status := ''closed'', p_close_price := Some c,
                                            p_pnl := tick_pnl r c, p_closed_at := Some ts\<rparr>)
                      else r) (positions d)"
proof
  assume dist: "distinct (map p_id (positions d))"
  have v: "takeWhile (\<lambda>p. \<not> throws (\<lambda>i. no_faults) prs p) xs = xs" for xs
    by (simp add: throws_def no_faults_def)
  have "fst (check_positions (\<lambda>i. no_faults) ts prs d) = None"
    by (simp add: check_positions_eq(1) [OF dist] throws_def no_faults_def)
  moreover have "positions (snd (check_positions (\<lambda>i. no_faults) ts prs d)) =
            map (\<lambda>r. if p_status r = ''open''
                      then (case check_tp_sl r (prs (p_asset r)) of
                               None \<Rightarrow> r
                             | Some c \<Rightarrow> r\<lparr>p_status := ''closed'', p_close_price := Some c,
                                            p_pnl := tick_pnl r c, p_closed_at := Some ts\<rparr>)
                      else r) (positions d)"
    unfolding check_positions_eq(2) [OF dist] v
    by (rule map_cong [OF refl]) simp
  ultimately show "fst (check_positions (\<lambda>i. no_faults) ts prs d) = None
        \<and> positions (snd (check_positions (\<lambda>i. no_faults) ts prs d)) =
            map (\<lambda>r. if p_status r = ''open''
                      then (case check_tp_sl r (prs (p_asset r)) of
                               None \<Rightarrow> r
                             | Some c \<Rightarrow> r\<lparr>p_status := ''closed'', p_close_price := Some c,
                                            p_pnl := tick_pnl r c, p_closed_at := Some ts\<rparr>)
                      else r) (positions d)"
    by (rule conjI)
qed

lemma tick_unfold:
  "tick rnd dn faults ts (m, d) =
       (fst (check_positions faults ts (prices (tick_market rnd dn m)) d),
        tick_market rnd dn m,
        snd (check_positions faults ts (prices (tick_market rnd dn m)) d))"
  by (simp add: tick_def Let_def)

section \<open>Take-profit and stop-loss evaluation\<close>

text \<open>
  C1. For a position evaluated against the current price: a long (\<^verbatim>\<open>BUY\<close>) position closes
  at its take-profit when that is set and the price is at or above it, otherwise at its
  stop-loss when that is set and the price is at or below it; for a short (\<^verbatim>\<open>SELL\<close>)
  position the comparisons are inverted; in every other case nothing is closed, in
  particular when neither threshold is set (whatever the price). The closing price is one
  of the two thresholds, and it is the price the settlement writes into the row. A
  threshold is set when it is neither \<^verbatim>\<open>null\<close> nor 0.

  Each tick applies this rule to every open position, against the prices the market step
  of the same tick has produced. With distinct row ids, the scan visits the open rows in
  table order up to the first settlement that throws; each visited row whose rule fires is
  closed at its threshold, with the profit/loss and the closing time, and its profit/loss
  is added to its owner's balance; every other row, the closed ones included, and the rest
  of the database are left as they were. The scan reports a fault exactly when a
  settlement has thrown. Without a fault every open row is visited.
\<close>

theorem tp_sl_evaluation:
  "(p_type pos = ''BUY'' \<and> p_take_profit pos = Some tp \<and> tp \<noteq> 0 \<and> cur \<ge> tp
      \<longrightarrow> check_tp_sl pos (Some cur) = Some tp)
   \<and> (p_type pos = ''BUY'' \<and> \<not> (\<exists>tp. p_take_profit pos = Some tp \<and> tp \<noteq> 0 \<and> cur \<ge> tp)
        \<and> p_stop_loss pos = Some sl \<and> sl \<noteq> 0 \<and> cur \<le> sl
      \<longrightarrow> check_tp_sl pos (Some cur) = Some sl)
   \<and> (p_type pos = ''SELL'' \<and> p_take_profit pos = Some tp \<and> tp \<noteq> 0 \<and> cur \<le> tp
      \<longrightarrow> check_tp_sl pos (Some cur) = Some tp)
   \<and> (p_type pos = ''SELL'' \<and> \<not> (\<exists>tp. p_take_profit pos = Some tp \<and> tp \<noteq> 0 \<and> cur \<le> tp)
        \<and> p_stop_loss pos = Some sl \<and> sl \<noteq> 0 \<and> cur \<ge> sl
      \<longrightarrow> check_tp_sl pos (Some cur) = Some sl)
   \<and> (p_type pos = ''BUY'' \<and> \<not> (\<exists>tp. p_take_profit pos = Some tp \<and> tp \<noteq> 0 \<and> cur \<ge> tp)
        \<and> \<not> (\<exists>sl. p_stop_loss pos = Some sl \<and> sl \<noteq> 0 \<and> cur \<le> sl)
      \<longrightarrow> check_tp_sl pos (Some cur) = None)
   \<and> (p_type pos = ''SELL'' \<and> \<not> (\<exists>tp. p_take_profit pos = Some tp \<and> tp \<noteq> 0 \<and> cur \<le> tp)
        \<and> \<not> (\<exists>sl. p_stop_loss pos = Some sl \<and> sl \<noteq> 0 \<and> cur \<ge> sl)
      \<longrightarrow> check_tp_sl pos (Some cur) = None)
   \<and> (\<not> truthy (p_take_profit pos) \<and> \<not> truthy (p_stop_loss pos)
      \<longrightarrow> check_tp_sl pos anyPrice = None \<and> tick_position f ts prs pos d = (None, d))
   \<and> (check_tp_sl pos (prs (p_asset pos)) = Some c
      \<longrightarrow> (Some c = p_take_profit pos \<or> Some c = p_stop_loss pos)
          \<and> tick_position no_faults ts prs pos d =
              (None, update_balance_add (tick_pnl pos c) (p_user_id pos)
                       (update_position_closed c (tick_pnl pos c) ts (p_id pos) d)))
   \<and> (distinct (map p_id (positions d)) \<longrightarrow>
        (let opens = filter (\<lambda>p. p_status p = ''open'') (positions d);
             visited = takeWhile
                 (\<lambda>p. \<not> (check_tp_sl p (prs (p_asset p)) \<noteq> None
                         \<and> (faults (p_id p) 0 \<or> faults (p_id p) 1))) opens;
             res = check_positions faults ts prs d
         in fst res =
              (if \<exists>p \<in> set opens. check_tp_sl p (prs (p_asset p)) \<noteq> None
                         \<and> (faults (p_id p) 0 \<or> faults (p_id p) 1)
               then Some StorageFault else None)
            \<and> positions (snd res) =
                map (\<lambda>r. if r \<in> set visited
                          then (case check_tp_sl r (prs (p_asset r)) of
                               None \<Rightarrow> r
                             | Some c \<Rightarrow> r\<lparr>p_status := ''closed'', p_close_price := Some c,
                                            p_pnl := tick_pnl r c, p_closed_at := Some ts\<rparr>)
                          else r) (positions d)
            \<and> (\<forall>uid. users (snd res) uid =
                  map_option
                    (\<lambda>u. u\<lparr>balance := balance u
                        + sum_list
                            (map (\<lambda>p. case check_tp_sl p (prs (p_asset p)) of
                                         None \<Rightarrow> 0 | Some c \<Rightarrow> tick_pnl p c)
                               (filter (\<lambda>p. p_user_id p = uid) visited))\<rparr>)
                    (users d uid))
            \<and> transactions (snd res) = transactions d
            \<and> positions_seq (snd res) = positions_seq d
            \<and> transactions_seq (snd res) = transactions_seq d))
   \<and> (distinct (map p_id (positions d)) \<longrightarrow>
        fst (check_positions (\<lambda>i. no_faults) ts prs d) = None
        \<and> positions (snd (check_positions (\<lambda>i. no_faults) ts prs d)) =
            map (\<lambda>r. if p_status r = ''open''
                      then (case check_tp_sl r (prs (p_asset r)) of
                               None \<Rightarrow> r
                             | Some c \<Rightarrow> r\<lparr>p_status := ''closed'', p_close_price := Some c,
                                            p_pnl := tick_pnl r c, p_closed_at := Some ts\<rparr>)
                      else r) (positions d))
   \<and> tick rnd dn faults ts (m, d) =
       (fst (check_positions faults ts (prices (tick_market rnd dn m)) d),
        tick_market rnd dn m,
        snd (check_positions faults ts (prices (tick_market rnd dn m)) d))"
  apply (intro conjI)
            apply (auto simp: check_tp_sl_def hit_ge_Some hit_le_Some truthy_def
              tick_position_def settle_def transaction_def run_def and_then_def no_faults_def
              hit_ge_def hit_le_def js_ge_def js_le_def split: option.splits if_splits)[8]
    apply (rule scan_with_faults)
   apply (rule scan_without_faults)
  apply (rule tick_unfold)
  done

theorem tp_sl_evaluation_witness:
  "check_tp_sl ex_long (Some 1.106) = Some 1.105
   \<and> check_tp_sl ex_long (Some 1.08) = Some 1.09
   \<and> check_tp_sl ex_short (Some 1985) = Some 1990
   \<and> check_tp_sl ex_short (Some 2015) = Some 2010
   \<and> check_tp_sl ex_long (Some 1.1) = None
   \<and> check_tp_sl ex_short (Some 2000) = None
   \<and> check_tp_sl ex_unset (Some 0) = None
   \<and> tick_position no_faults 99 ex_prices ex_unset ex_db = (None, ex_db)
   \<and> map p_close_price (positions (snd (tick_position no_faults 99 ex_prices ex_long ex_db)))
       = [Some 1.105, None]
   \<and> fst (check_positions ex_faults 99 ex_prices ex_db) = Some StorageFault
   \<and> map p_close_price (positions (snd (check_positions ex_faults 99 ex_prices ex_db)))
       = [Some 1.105, None]
   \<and> map p_status (positions (snd (check_positions ex_faults 99 ex_prices ex_db)))
       = [''closed'', ''open'']
   \<and> map_option balance (users (snd (check_positions ex_faults 99 ex_prices ex_db)) 7)
       = Some 10000.005
   \<and> fst (check_positions (\<lambda>i. no_faults) 99 ex_prices ex_db) = None
   \<and> map p_close_price (positions (snd (check_positions (\<lambda>i. no_faults) 99 ex_prices ex_db)))
       = [Some 1.105, Some 2010]
   \<and> fst (tick ex_rnd ex_clock (\<lambda>i. no_faults) 99 (init_market, ex_db)) = None
   \<and> map p_close_price
        (positions (snd (snd (tick ex_rnd ex_clock (\<lambda>i. no_faults) 99 (init_market, ex_db)))))
       = [Some 1.09, Some 2010]"
proof -
  have 1: "check_tp_sl ex_long (Some 1.106) = Some 1.105"
    using tp_sl_evaluation [where pos = ex_long and tp = "1.105" and cur = "1.106"]
    by (simp add: ex_long_def)
  have 2: "check_tp_sl ex_long (Some 1.08) = Some 1.09"
    using tp_sl_evaluation [where pos = ex_long and cur = "1.08" and sl = "1.09"]
    by (simp add: ex_long_def)
  have 3: "check_tp_sl ex_short (Some 1985) = Some 1990"
    using tp_sl_evaluation [where pos = ex_short and tp = 1990 and cur = 1985]
    by (simp add: ex_short_def)
  have 4: "check_tp_sl ex_short (Some 2015) = Some 2010"
    using tp_sl_evaluation [where pos = ex_short and cur = 2015 and sl = 2010]
    by (simp add: ex_short_def)
  have 5: "check_tp_sl ex_long (Some 1.1) = None"
    using tp_sl_evaluation [where pos = ex_long and cur = "1.1"]
    by (simp add: ex_long_def)
  have 6: "check_tp_sl ex_short (Some 2000) = None"
    using tp_sl_evaluation [where pos = ex_short and cur = 2000]
    by (simp add: ex_short_def)
  have 7: "check_tp_sl ex_unset (Some 0) = None
           \<and> tick_position no_faults 99 ex_prices ex_unset ex_db = (None, ex_db)"
    using tp_sl_evaluation [where pos = ex_unset and anyPrice = "Some 0" and f = no_faults
        and ts = 99 and prs = ex_prices and d = ex_db]
    by (simp add: ex_unset_def truthy_def)
  have "ex_prices (p_asset ex_long) = Some 1.106"
    by (simp add: ex_prices_def ex_long_def)
  with 1 have "tick_position no_faults 99 ex_prices ex_long ex_db =
      (None, update_balance_add (tick_pnl ex_long 1.105) (p_user_id ex_long)
               (update_position_closed 1.105 (tick_pnl ex_long 1.105) 99 (p_id ex_long) ex_db))"
    using tp_sl_evaluation [where pos = ex_long and prs = ex_prices and c = "1.105" and ts = 99
        and d = ex_db]
    by simp
  then have 8: "map p_close_price
        (positions (snd (tick_position no_faults 99 ex_prices ex_long ex_db)))
       = [Some 1.105, None]"
    by (simp add: update_balance_add_def update_position_closed_def ex_db_def ex_long_def
        ex_short_def)
  have dist: "distinct (map p_id (positions ex_db))"
    by (simp add: ex_db_def ex_long_def ex_short_def)
  have rows: "positions ex_db = [ex_long, ex_short]"
    and usr: "users ex_db 7 = Some \<lparr>balance = 10000, role = ''user''\<rparr>"
    by (simp_all add: ex_db_def)
  have f: "p_status ex_long = ''open''" "p_status ex_short = ''open''" "p_id ex_long = 1"
    "p_id ex_short = 2" "p_user_id ex_long = 7" "p_user_id ex_short = 7"
    "p_asset ex_long = ''EUR/USD''" "p_asset ex_short = ''GOLD''"
    "ex_long \<noteq> ex_short" "ex_short \<noteq> ex_long"
    by (simp_all add: ex_long_def ex_short_def)
  have pr: "ex_prices ''EUR/USD'' = Some 1.106" "ex_prices ''GOLD'' = Some 2015"
    by (simp_all add: ex_prices_def)
  have pnl: "tick_pnl ex_long 1.105 = 0.005"
    by (simp add: tick_pnl_def ex_long_def)
  note T = tp_sl_evaluation [where d = ex_db and prs = ex_prices and faults = ex_faults
      and ts = 99]
  note scan = T [THEN conjunct2, THEN conjunct2, THEN conjunct2, THEN conjunct2,
      THEN conjunct2, THEN conjunct2, THEN conjunct2, THEN conjunct2, THEN conjunct1,
      THEN mp, OF dist, unfolded Let_def]
  have 9: "fst (check_positions ex_faults 99 ex_prices ex_db) = Some StorageFault"
    using scan [THEN conjunct1] 1 4 by (simp add: rows f pr ex_faults_def)
  have 10: "positions (snd (check_positions ex_faults 99 ex_prices ex_db)) =
      [ex_long\<lparr>p_status := ''closed'', p_close_price := Some 1.105, p_pnl := 0.005,
          p_closed_at := Some 99\<rparr>, ex_short]"
    using scan [THEN conjunct2, THEN conjunct1] 1 4 pnl
    by (simp add: rows f pr ex_faults_def)
  have 11: "map_option balance (users (snd (check_positions ex_faults 99 ex_prices ex_db)) 7)
       = Some 10000.005"
    using scan [THEN conjunct2, THEN conjunct2, THEN conjunct1, THEN spec, of 7] 1 4 pnl
    by (simp add: rows f pr ex_faults_def usr)
  note U = tp_sl_evaluation [where d = ex_db and prs = ex_prices and ts = 99]
  note nof = U [THEN conjunct2, THEN conjunct2, THEN conjunct2, THEN conjunct2,
      THEN conjunct2, THEN conjunct2, THEN conjunct2, THEN conjunct2, THEN conjunct2,
      THEN conjunct1, THEN mp, OF dist]
  have 12: "fst (check_positions (\<lambda>i. no_faults) 99 ex_prices ex_db) = None"
    using nof by (rule conjunct1)
  have 13: "map p_close_price
        (positions (snd (check_positions (\<lambda>i. no_faults) 99 ex_prices ex_db)))
       = [Some 1.105, Some 2010]"
    using nof [THEN conjunct2] 1 4 by (simp add: rows f pr)
  let ?P = "prices (tick_market ex_rnd ex_clock init_market)"
  have a: "''EUR/USD'' \<in> set assets" "''GOLD'' \<in> set assets"
    by (simp_all add: assets_def)
  have post: "?P ''EUR/USD'' = Some 1.085691355" "?P ''GOLD'' = Some 2035.008625"
    using a
    by (simp_all add: prices_tick_market prices_tick_asset init_market_def defaults_def
        ex_rnd_def volatility_def)
  have cl: "check_tp_sl ex_long (Some 1.085691355) = Some 1.09"
    using tp_sl_evaluation [where pos = ex_long and cur = "1.085691355" and sl = "1.09"]
    by (simp add: ex_long_def)
  have cs: "check_tp_sl ex_short (Some 2035.008625) = Some 2010"
    using tp_sl_evaluation [where pos = ex_short and cur = "2035.008625" and sl = 2010]
    by (simp add: ex_short_def)
  note V = tp_sl_evaluation [where d = ex_db and prs = "?P" and ts = 99
      and faults = "\<lambda>i. no_faults" and rnd = ex_rnd and dn = ex_clock and m = init_market]
  note tk = V [THEN conjunct2, THEN conjunct2, THEN conjunct2, THEN conjunct2,
      THEN conjunct2, THEN conjunct2, THEN conjunct2, THEN conjunct2, THEN conjunct2,
      THEN conjunct2]
  note nop = V [THEN conjunct2, THEN conjunct2, THEN conjunct2, THEN conjunct2,
      THEN conjunct2, THEN conjunct2, THEN conjunct2, THEN conjunct2, THEN conjunct2,
      THEN conjunct1, THEN mp, OF dist]
  have 14: "fst (tick ex_rnd ex_clock (\<lambda>i. no_faults) 99 (init_market, ex_db)) = None"
    unfolding tk using nop [THEN conjunct1] by simp
  have 15: "map p_close_price
        (positions (snd (snd (tick ex_rnd ex_clock (\<lambda>i. no_faults) 99 (init_market, ex_db)))))
       = [Some 1.09, Some 2010]"
    unfolding tk using nop [THEN conjunct2] cl cs by (simp add: rows f post)
  from 10 have 16: "map p_close_price (positions (snd (check_positions ex_faults 99 ex_prices ex_db)))
       = [Some 1.105, None]"
    and 17: "map p_status (positions (snd (check_positions ex_faults 99 ex_prices ex_db)))
       = [''closed'', ''open'']"
    by (simp_all add: ex_short_def)
  show ?thesis
    using 1 2 3 4 5 6 7 8 9 16 17 11 12 13 14 15 by simp
qed

section \<open>One profit/loss formula\<close>

text \<open>
  C6. The tick's evaluator and the manual close compute the same profit/loss:
  \<open>(closePrice - entryPrice) * size\<close> for a long position and
  \<open>(entryPrice - closePrice) * size\<close> for a short one; and closing a position by hand at
  the price at which the tick would close it leaves the same database.
\<close>

theorem pnl_paths_agree:
  "tick_pnl pos c = close_pnl pos c
   \<and> (p_type pos = ''BUY'' \<longrightarrow> close_pnl pos c = (c - p_entry_price pos) * p_size pos)
   \<and> (p_type pos = ''SELL'' \<longrightarrow> close_pnl pos c = (p_entry_price pos - c) * p_size pos)
   \<and> (find (\<lambda>p. p_id p = pid \<and> p_user_id p = uid) (positions d) = Some pos
        \<and> p_status pos = ''open'' \<and> check_tp_sl pos (prs (p_asset pos)) = Some c
      \<longrightarrow> snd (close_position f ts uid pid c d) = snd (tick_position f ts prs pos d))"
proof -
  have "snd (close_position f ts uid pid c d) = snd (tick_position f ts prs pos d)"
    if h: "find (\<lambda>p. p_id p = pid \<and> p_user_id p = uid) (positions d) = Some pos"
      "p_status pos = ''open''" "check_tp_sl pos (prs (p_asset pos)) = Some c"
  proof -
    from h(1) have "p_id pos = pid \<and> p_user_id pos = uid"
      by (auto simp: find_Some_iff)
    moreover have "tick_pnl pos c = close_pnl pos c"
      by (simp add: tick_pnl_def close_pnl_def)
    ultimately show ?thesis using h
      by (cases "settle f ts pid uid c (close_pnl pos c) d")
        (simp add: close_position_def tick_position_def Let_def split: option.splits)
  qed
  then show ?thesis
    by (auto simp: tick_pnl_def close_pnl_def)
qed

theorem pnl_paths_agree_witness:
  "close_pnl ex_long 1.105 = (1.105 - 1.1) * 1
   \<and> close_pnl ex_short 2010 = -5
   \<and> snd (close_position no_faults 99 7 2 2010 ex_db) = snd (tick_position no_faults 99 ex_prices ex_short ex_db)"
proof -
  have a: "find (\<lambda>p. p_id p = 2 \<and> p_user_id p = 7) (positions ex_db) = Some ex_short"
    by (simp add: ex_db_def ex_long_def ex_short_def)
  have b: "check_tp_sl ex_short (ex_prices (p_asset ex_short)) = Some 2010"
    by (simp add: check_tp_sl_def ex_short_def ex_prices_def hit_ge_def hit_le_def js_ge_def js_le_def)
  show ?thesis
    using pnl_paths_agree [of ex_long "1.105"] pnl_paths_agree [of ex_short 2010 2 7 ex_db ex_prices no_faults 99] a b
    by (simp add: ex_long_def ex_short_def)
qed

section \<open>Atomic settlement\<close>

text \<open>
  C2. Settlement is one unit on both paths, the manual close and the tick. When a statement
  of the unit throws (the first, or the second after the first has run), the database is
  left as it was: the position row is unchanged, hence still open, and no balance has
  moved. When no statement throws, the row is marked closed with the close price, the
  profit/loss and the closing time, and the profit/loss is added to the owner's balance.
\<close>

theorem settlement_atomic:
  "(f 0 \<or> f 1 \<longrightarrow>
      snd (close_position f ts uid pid c d) = d
      \<and> snd (tick_position f ts prs pos d) = d)
   \<and> (\<not> f 0 \<and> \<not> f 1
        \<and> find (\<lambda>p. p_id p = pid \<and> p_user_id p = uid) (positions d) = Some pos
        \<and> p_status pos = ''open'' \<and> users d uid = Some usr \<longrightarrow>
      (let d' = snd (close_position f ts uid pid c d) in
       fst (close_position f ts uid pid c d) = Json_pnl (close_pnl pos c)
       \<and> positions d' =
           map (\<lambda>p. if p_id p = pid
                     then p\<lparr>p_status := ''closed'', p_close_price := Some c,
                            p_pnl := close_pnl pos c, p_closed_at := Some ts\<rparr>
                     else p) (positions d)
       \<and> users d' = (users d)(uid \<mapsto> usr\<lparr>balance := balance usr + close_pnl pos c\<rparr>)))
   \<and> (\<not> f 0 \<and> \<not> f 1 \<and> check_tp_sl pos (prs (p_asset pos)) = Some c
        \<and> users d (p_user_id pos) = Some usr \<longrightarrow>
      (let d' = snd (tick_position f ts prs pos d) in
       fst (tick_position f ts prs pos d) = None
       \<and> positions d' =
           map (\<lambda>p. if p_id p = p_id pos
                     then p\<lparr>p_status := ''closed'', p_close_price := Some c,
                            p_pnl := tick_pnl pos c, p_closed_at := Some ts\<rparr>
                     else p) (positions d)
       \<and> users d' =
           (users d)(p_user_id pos \<mapsto> usr\<lparr>balance := balance usr + tick_pnl pos c\<rparr>)))"
proof (intro conjI impI)
  assume "f 0 \<or> f 1"
  then show "snd (close_position f ts uid pid c d) = d"
    by (simp add: close_position_def settle_cases Let_def split: option.splits)
next
  assume "f 0 \<or> f 1"
  then show "snd (tick_position f ts prs pos d) = d"
    by (simp add: tick_position_def settle_cases split: option.splits)
next
  assume "\<not> f 0 \<and> \<not> f 1
        \<and> find (\<lambda>p. p_id p = pid \<and> p_user_id p = uid) (positions d) = Some pos
        \<and> p_status pos = ''open'' \<and> users d uid = Some usr"
  then show "let d' = snd (close_position f ts uid pid c d) in
       fst (close_position f ts uid pid c d) = Json_pnl (close_pnl pos c)
       \<and> positions d' =
           map (\<lambda>p. if p_id p = pid
                     then p\<lparr>p_status := ''closed'', p_close_price := Some c,
                            p_pnl := close_pnl pos c, p_closed_at := Some ts\<rparr>
                     else p) (positions d)
       \<and> users d' = (users d)(uid \<mapsto> usr\<lparr>balance := balance usr + close_pnl pos c\<rparr>)"
    by (simp add: close_position_def settle_cases Let_def update_balance_add_def
        update_position_closed_def)
next
  assume "\<not> f 0 \<and> \<not> f 1 \<and> check_tp_sl pos (prs (p_asset pos)) = Some c
        \<and> users d (p_user_id pos) = Some usr"
  then show "let d' = snd (tick_position f ts prs pos d) in
       fst (tick_position f ts prs pos d) = None
       \<and> positions d' =
           map (\<lambda>p. if p_id p = p_id pos
                     then p\<lparr>p_status := ''closed'', p_close_price := Some c,
                            p_pnl := tick_pnl pos c, p_closed_at := Some ts\<rparr>
                     else p) (positions d)
       \<and> users d' =
           (users d)(p_user_id pos \<mapsto> usr\<lparr>balance := balance usr + tick_pnl pos c\<rparr>)"
    by (simp add: tick_position_def settle_cases Let_def update_balance_add_def
        update_position_closed_def)
qed

theorem settlement_atomic_witness:
  "snd (close_position fault_second 99 7 1 1.2 ex_db) = ex_db
   \<and> snd (tick_position fault_second 99 ex_prices ex_long ex_db) = ex_db
   \<and> fst (close_position no_faults 99 7 2 2010 ex_db) = Json_pnl (-5)
   \<and> map p_status (positions (snd (close_position no_faults 99 7 2 2010 ex_db)))
       = [''open'', ''closed'']
   \<and> map_option balance (users (snd (close_position no_faults 99 7 2 2010 ex_db)) 7) = Some 9995
   \<and> map p_status (positions (snd (tick_position no_faults 99 ex_prices ex_short ex_db)))
       = [''open'', ''closed'']
   \<and> map_option balance (users (snd (tick_position no_faults 99 ex_prices ex_short ex_db)) 7)
       = Some 9995"
proof -
  have 1: "snd (close_position fault_second 99 7 1 1.2 ex_db) = ex_db
     \<and> snd (tick_position fault_second 99 ex_prices ex_long ex_db) = ex_db"
    using settlement_atomic [where f = fault_second and ts = 99 and uid = 7 and pid = 1
        and c = "1.2" and d = ex_db and prs = ex_prices and pos = ex_long]
    by (simp add: fault_second_def)
  have u: "users ex_db 7 = Some \<lparr>balance = 10000, role = ''user''\<rparr>"
    by (simp add: ex_db_def)
  have f: "find (\<lambda>p. p_id p = 2 \<and> p_user_id p = 7) (positions ex_db) = Some ex_short"
    by (simp add: ex_db_def ex_long_def ex_short_def)
  have c: "check_tp_sl ex_short (ex_prices (p_asset ex_short)) = Some 2010"
    by (simp add: check_tp_sl_def ex_short_def ex_prices_def hit_ge_def hit_le_def js_ge_def
        js_le_def)
  have p: "close_pnl ex_short 2010 = -5" "tick_pnl ex_short 2010 = -5"
    by (simp_all add: close_pnl_def tick_pnl_def ex_short_def)
  have s: "p_status ex_short = ''open''" "p_user_id ex_short = 7" "p_id ex_short = 2"
    "p_id ex_long = 1" "p_status ex_long = ''open''"
    by (simp_all add: ex_short_def ex_long_def)
  have 2: "fst (close_position no_faults 99 7 2 2010 ex_db) = Json_pnl (-5)
     \<and> map p_status (positions (snd (close_position no_faults 99 7 2 2010 ex_db)))
       = [''open'', ''closed'']
     \<and> map_option balance (users (snd (close_position no_faults 99 7 2 2010 ex_db)) 7)
       = Some 9995"
    using settlement_atomic [where f = no_faults and ts = 99 and uid = 7 and pid = 2
        and c = 2010 and d = ex_db and pos = ex_short
        and usr = "\<lparr>balance = 10000, role = ''user''\<rparr>"] u f p s
    by (simp add: no_faults_def Let_def) (simp add: ex_db_def s)
  have 3: "map p_status (positions (snd (tick_position no_faults 99 ex_prices ex_short ex_db)))
       = [''open'', ''closed'']
     \<and> map_option balance (users (snd (tick_position no_faults 99 ex_prices ex_short ex_db)) 7)
       = Some 9995"
    using settlement_atomic [where f = no_faults and ts = 99 and prs = ex_prices
        and c = 2010 and d = ex_db and pos = ex_short
        and usr = "\<lparr>balance = 10000, role = ''user''\<rparr>"] u c p s
    by (simp add: no_faults_def Let_def) (simp add: ex_db_def s)
  show ?thesis
    using 1 2 3 by simp
qed

section \<open>Margin check on opening\<close>

text \<open>
  C7. Opening a position for an existing account computes the required margin as
  \<open>size * entryPrice / 100\<close>. When the balance is below it, the request is rejected with
  status 400 and the database is unchanged. Otherwise the position is inserted (when the
  insert does not throw), and in every case the balances are unchanged: the margin is
  never debited.
\<close>

theorem open_position_margin:
  "users d uid = Some usr \<Longrightarrow>
     (balance usr < sz * entry / 100 \<longrightarrow>
        open_position f ts uid a sz ty entry tp sl d = (Status 400 ''Insufficient margin'', d))
     \<and> (\<not> balance usr < sz * entry / 100 \<and> \<not> f 0 \<longrightarrow>
        (let d' = snd (open_position f ts uid a sz ty entry tp sl d) in
         fst (open_position f ts uid a sz ty entry tp sl d) = Json_id (positions_seq d + 1)
         \<and> positions d' = positions d @
             [\<lparr>p_id = positions_seq d + 1, p_user_id = uid, p_asset = a, p_size = sz,
               p_type = ty, p_entry_price = entry, p_take_profit = or_null tp,
               p_stop_loss = or_null sl, p_close_price = None, p_status = ''open'',
               p_pnl = 0, p_created_at = ts, p_closed_at = None\<rparr>]
         \<and> users d' = users d))
     \<and> users (snd (open_position f ts uid a sz ty entry tp sl d)) = users d"
  by (simp add: open_position_def run_def Let_def insert_position_def)

theorem open_position_margin_witness:
  "open_position no_faults 99 7 ''BTC/USD'' 20 ''BUY'' 62450.5 None None ex_db
     = (Status 400 ''Insufficient margin'', ex_db)
   \<and> fst (open_position no_faults 99 7 ''EUR/USD'' 1000 ''BUY'' 1.1 None None ex_db) = Json_id 3
   \<and> length (positions (snd (open_position no_faults 99 7 ''EUR/USD'' 1000 ''BUY'' 1.1 None None ex_db))) = 3
   \<and> map_option balance
        (users (snd (open_position no_faults 99 7 ''EUR/USD'' 1000 ''BUY'' 1.1 None None ex_db)) 7)
       = Some 10000"
proof -
  have u: "users ex_db 7 = Some \<lparr>balance = 10000, role = ''user''\<rparr>"
    by (simp add: ex_db_def)
  have 1: "open_position no_faults 99 7 ''BTC/USD'' 20 ''BUY'' 62450.5 None None ex_db
     = (Status 400 ''Insufficient margin'', ex_db)"
    using open_position_margin [OF u, where sz = 20 and entry = "62450.5" and f = no_faults
        and ts = 99 and a = "''BTC/USD''" and ty = "''BUY''" and tp = None and sl = None]
    by simp
  have 2: "fst (open_position no_faults 99 7 ''EUR/USD'' 1000 ''BUY'' 1.1 None None ex_db) = Json_id 3
   \<and> length (positions (snd (open_position no_faults 99 7 ''EUR/USD'' 1000 ''BUY'' 1.1 None None ex_db))) = 3
   \<and> map_option balance
        (users (snd (open_position no_faults 99 7 ''EUR/USD'' 1000 ''BUY'' 1.1 None None ex_db)) 7)
       = Some 10000"
    using open_position_margin [OF u, where sz = 1000 and entry = "1.1" and f = no_faults
        and ts = 99 and a = "''EUR/USD''" and ty = "''BUY''" and tp = None and sl = None] u
    by (simp add: no_faults_def Let_def) (simp add: ex_db_def)
  show ?thesis using 1 2 by simp
qed

section \<open>A threshold of zero\<close>

text \<open>
  C9. A take-profit or stop-loss of 0 counts as not set. The open-position endpoint stores
  it as \<^verbatim>\<open>null\<close> (any other value is stored as given). In the tick's evaluator a
  position whose take-profit is \<^verbatim>\<open>null\<close> or 0 is closed, if at all, at its stop-loss,
  which is then set; likewise with the two exchanged; and with both \<^verbatim>\<open>null\<close> or 0
  it is never closed, whatever the price.
\<close>

theorem zero_threshold_is_unset:
  "(users d uid = Some usr \<and> \<not> balance usr < sz * entry / 100 \<and> \<not> f 0 \<longrightarrow>
      p_take_profit (last (positions (snd (open_position f ts uid a sz ty entry tp sl d))))
        = (if tp = Some 0 then None else tp)
      \<and> p_stop_loss (last (positions (snd (open_position f ts uid a sz ty entry tp sl d))))
        = (if sl = Some 0 then None else sl))
   \<and> (p_take_profit pos = None \<or> p_take_profit pos = Some 0 \<longrightarrow>
        check_tp_sl pos cur = None
        \<or> check_tp_sl pos cur = p_stop_loss pos \<and> truthy (p_stop_loss pos))
   \<and> (p_stop_loss pos = None \<or> p_stop_loss pos = Some 0 \<longrightarrow>
        check_tp_sl pos cur = None
        \<or> check_tp_sl pos cur = p_take_profit pos \<and> truthy (p_take_profit pos))
   \<and> ((p_take_profit pos = None \<or> p_take_profit pos = Some 0)
        \<and> (p_stop_loss pos = None \<or> p_stop_loss pos = Some 0) \<longrightarrow>
        check_tp_sl pos cur = None)"
proof (intro conjI impI)
  assume "users d uid = Some usr \<and> \<not> balance usr < sz * entry / 100 \<and> \<not> f 0"
  then show "p_take_profit (last (positions (snd (open_position f ts uid a sz ty entry tp sl d))))
        = (if tp = Some 0 then None else tp)"
    by (auto simp: open_position_def run_def insert_position_def or_null_def truthy_def
        split: option.splits)
next
  assume "users d uid = Some usr \<and> \<not> balance usr < sz * entry / 100 \<and> \<not> f 0"
  then show "p_stop_loss (last (positions (snd (open_position f ts uid a sz ty entry tp sl d))))
        = (if sl = Some 0 then None else sl)"
    by (auto simp: open_position_def run_def insert_position_def or_null_def truthy_def
        split: option.splits)
next
  assume "p_take_profit pos = None \<or> p_take_profit pos = Some 0"
  then show "check_tp_sl pos cur = None
        \<or> check_tp_sl pos cur = p_stop_loss pos \<and> truthy (p_stop_loss pos)"
    by (auto simp: check_tp_sl_def truthy_def hit_ge_def hit_le_def split: option.splits)
next
  assume "p_stop_loss pos = None \<or> p_stop_loss pos = Some 0"
  then show "check_tp_sl pos cur = None
        \<or> check_tp_sl pos cur = p_take_profit pos \<and> truthy (p_take_profit pos)"
    by (auto simp: check_tp_sl_def truthy_def hit_ge_def hit_le_def split: option.splits)
next
  assume "(p_take_profit pos = None \<or> p_take_profit pos = Some 0)
        \<and> (p_stop_loss pos = None \<or> p_stop_loss pos = Some 0)"
  then show "check_tp_sl pos cur = None"
    by (auto simp: check_tp_sl_def)
qed

theorem zero_threshold_is_unset_witness:
  "p_take_profit (last (positions (snd
       (open_position no_faults 99 7 ''OIL'' 2 ''BUY'' 78 (Some 0) (Some 70) ex_db)))) = None
   \<and> p_stop_loss (last (positions (snd
       (open_position no_faults 99 7 ''OIL'' 2 ''BUY'' 78 (Some 0) (Some 70) ex_db)))) = Some 70
   \<and> check_tp_sl ex_unset (Some 1) = None
   \<and> (check_tp_sl ex_zero_tp (Some (-1)) = None \<or> check_tp_sl ex_zero_tp (Some (-1)) = Some 80)"
proof -
  have u: "users ex_db 7 = Some \<lparr>balance = 10000, role = ''user''\<rparr>"
    by (simp add: ex_db_def)
  have 1: "p_take_profit (last (positions (snd
       (open_position no_faults 99 7 ''OIL'' 2 ''BUY'' 78 (Some 0) (Some 70) ex_db)))) = None
   \<and> p_stop_loss (last (positions (snd
       (open_position no_faults 99 7 ''OIL'' 2 ''BUY'' 78 (Some 0) (Some 70) ex_db)))) = Some 70"
    using zero_threshold_is_unset [where d = ex_db and uid = 7 and sz = 2 and entry = 78
        and f = no_faults and tp = "Some 0" and sl = "Some 70" and ts = 99 and a = "''OIL''"
        and ty = "''BUY''" and usr = "\<lparr>balance = 10000, role = ''user''\<rparr>"] u
    by (simp add: no_faults_def)
  have 2: "check_tp_sl ex_unset (Some 1) = None"
    using zero_threshold_is_unset [where pos = ex_unset and cur = "Some 1"]
    by (simp add: ex_unset_def)
  have 3: "check_tp_sl ex_zero_tp (Some (-1)) = None \<or> check_tp_sl ex_zero_tp (Some (-1)) = Some 80"
  proof -
    have t: "p_take_profit ex_zero_tp = Some 0" "p_stop_loss ex_zero_tp = Some 80"
      by (simp_all add: ex_zero_tp_def)
    show ?thesis
      using zero_threshold_is_unset [where pos = ex_zero_tp and cur = "Some (-1)"] t
      by auto
  qed
  show ?thesis using 1 2 3 by simp
qed

section \<open>Deposits, withdrawals and their approval\<close>

text \<open>
  C10. A deposit request never changes a balance: it only appends a pending transaction
  row. Approval by an admin of a pending deposit adds the amount to the owner's balance and
  marks the row approved. Approval of a pending withdrawal leaves every balance as it is
  and changes only the row's status; the amount was taken off the balance by the
  withdrawal request. An approval call changes a balance only when the caller is an admin
  and the transaction is a pending deposit.
\<close>

theorem deposit_and_approval:
  "users (snd (deposit f ts uid amount m r d)) = users d
   \<and> (\<not> f 0 \<longrightarrow>
        snd (deposit f ts uid amount m r d) =
          d\<lparr>transactions := transactions d @
               [\<lparr>t_id = transactions_seq d + 1, t_user_id = uid, t_type = ''deposit'',
                 t_amount = amount, t_status = ''pending'', t_method = m, t_reference = r,
                 t_created_at = ts\<rparr>],
            transactions_seq := transactions_seq d + 1\<rparr>)
   \<and> (find (\<lambda>t. t_id t = tx_id) (transactions d) = Some tx \<and> t_status tx = ''pending''
        \<and> t_type tx = ''deposit'' \<and> users d (t_user_id tx) = Some usr \<and> \<not> f 0 \<and> \<not> f 1 \<longrightarrow>
        users (snd (approve f ''admin'' tx_id d)) =
          (users d)(t_user_id tx \<mapsto> usr\<lparr>balance := balance usr + t_amount tx\<rparr>)
        \<and> transactions (snd (approve f ''admin'' tx_id d)) =
            map (\<lambda>t. if t_id t = tx_id then t\<lparr>t_status := ''approved''\<rparr> else t)
              (transactions d))
   \<and> (find (\<lambda>t. t_id t = tx_id) (transactions d) = Some tx \<and> t_status tx = ''pending''
        \<and> t_type tx = ''withdrawal'' \<longrightarrow>
        users (snd (approve f ''admin'' tx_id d)) = users d
        \<and> positions (snd (approve f ''admin'' tx_id d)) = positions d
        \<and> (\<not> f 0 \<longrightarrow>
             transactions (snd (approve f ''admin'' tx_id d)) =
               map (\<lambda>t. if t_id t = tx_id then t\<lparr>t_status := ''approved''\<rparr> else t)
                 (transactions d)))
   \<and> (users (snd (approve f rl tx_id d)) \<noteq> users d \<longrightarrow>
        rl = ''admin''
        \<and> (\<exists>t. find (\<lambda>t. t_id t = tx_id) (transactions d) = Some t
               \<and> t_status t = ''pending'' \<and> t_type t = ''deposit''))
   \<and> (users d uid = Some usr \<and> \<not> balance usr < amount \<and> \<not> f 0 \<and> \<not> f 1 \<longrightarrow>
        users (snd (withdraw f ts uid amount m r d)) =
          (users d)(uid \<mapsto> usr\<lparr>balance := balance usr - amount\<rparr>))"
proof (intro conjI impI)
  show "users (snd (deposit f ts uid amount m r d)) = users d"
    by (simp add: deposit_def run_def)
next
  assume "\<not> f 0"
  then show "snd (deposit f ts uid amount m r d) =
          d\<lparr>transactions := transactions d @
               [\<lparr>t_id = transactions_seq d + 1, t_user_id = uid, t_type = ''deposit'',
                 t_amount = amount, t_status = ''pending'', t_method = m, t_reference = r,
                 t_created_at = ts\<rparr>],
            transactions_seq := transactions_seq d + 1\<rparr>"
    by (simp add: deposit_def run_def insert_transaction_def)
next
  assume h: "find (\<lambda>t. t_id t = tx_id) (transactions d) = Some tx \<and> t_status tx = ''pending''
        \<and> t_type tx = ''deposit'' \<and> users d (t_user_id tx) = Some usr \<and> \<not> f 0 \<and> \<not> f 1"
  then show "users (snd (approve f ''admin'' tx_id d)) =
          (users d)(t_user_id tx \<mapsto> usr\<lparr>balance := balance usr + t_amount tx\<rparr>)"
    by (simp add: approve_def transaction_def run_def and_then_def update_balance_add_def)
  from h show "transactions (snd (approve f ''admin'' tx_id d)) =
            map (\<lambda>t. if t_id t = tx_id then t\<lparr>t_status := ''approved''\<rparr> else t)
              (transactions d)"
    by (simp add: approve_def transaction_def run_def and_then_def)
      (simp add: update_transaction_approved_def)
next
  assume h: "find (\<lambda>t. t_id t = tx_id) (transactions d) = Some tx \<and> t_status tx = ''pending''
        \<and> t_type tx = ''withdrawal''"
  then show "users (snd (approve f ''admin'' tx_id d)) = users d"
    by (simp add: approve_def transaction_def run_def and_then_def)
  from h show "positions (snd (approve f ''admin'' tx_id d)) = positions d"
    by (simp add: approve_def transaction_def run_def and_then_def
        update_transaction_approved_def)
  assume "\<not> f 0"
  with h show "transactions (snd (approve f ''admin'' tx_id d)) =
               map (\<lambda>t. if t_id t = tx_id then t\<lparr>t_status := ''approved''\<rparr> else t)
                 (transactions d)"
    by (simp add: approve_def transaction_def run_def and_then_def
        update_transaction_approved_def)
next
  assume h: "users (snd (approve f rl tx_id d)) \<noteq> users d"
  show "rl = ''admin''"
    using h by (auto simp: approve_def)
  show "\<exists>t. find (\<lambda>t. t_id t = tx_id) (transactions d) = Some t
               \<and> t_status t = ''pending'' \<and> t_type t = ''deposit''"
    using h
    by (auto simp: approve_def transaction_def run_def and_then_def
        split: if_splits option.splits)
next
  assume "users d uid = Some usr \<and> \<not> balance usr < amount \<and> \<not> f 0 \<and> \<not> f 1"
  then show "users (snd (withdraw f ts uid amount m r d)) =
          (users d)(uid \<mapsto> usr\<lparr>balance := balance usr - amount\<rparr>)"
    by (simp add: withdraw_def transaction_def run_def and_then_def update_balance_sub_def)
qed

theorem deposit_and_approval_witness:
  "users (snd (deposit no_faults 99 7 250 ''mpesa'' ''R3'' ex_wallet_db)) = users ex_wallet_db
   \<and> length (transactions (snd (deposit no_faults 99 7 250 ''mpesa'' ''R3'' ex_wallet_db))) = 3
   \<and> map_option balance (users (snd (approve no_faults ''admin'' 1 ex_wallet_db)) 7) = Some 10150
   \<and> map t_status (transactions (snd (approve no_faults ''admin'' 1 ex_wallet_db)))
       = [''approved'', ''pending'']
   \<and> users (snd (approve no_faults ''admin'' 2 ex_wallet_db)) = users ex_wallet_db
   \<and> map t_status (transactions (snd (approve no_faults ''admin'' 2 ex_wallet_db)))
       = [''pending'', ''approved'']
   \<and> (\<exists>t. find (\<lambda>t. t_id t = 1) (transactions ex_wallet_db) = Some t
          \<and> t_status t = ''pending'' \<and> t_type t = ''deposit'')
   \<and> map_option balance (users (snd (withdraw no_faults 99 7 100 ''mpesa'' ''R4'' ex_wallet_db)) 7)
       = Some 9800"
proof -
  let ?u = "\<lparr>balance = 9900, role = ''user''\<rparr>"
  have u: "users ex_wallet_db 7 = Some ?u"
    by (simp add: ex_wallet_db_def)
  have f1: "find (\<lambda>t. t_id t = 1) (transactions ex_wallet_db) = Some ex_deposit"
    and f2: "find (\<lambda>t. t_id t = 2) (transactions ex_wallet_db) = Some ex_withdrawal"
    by (simp_all add: ex_wallet_db_def ex_deposit_def ex_withdrawal_def)
  have t: "t_status ex_deposit = ''pending''" "t_type ex_deposit = ''deposit''"
    "t_user_id ex_deposit = 7" "t_amount ex_deposit = 250" "t_id ex_deposit = 1"
    "t_status ex_withdrawal = ''pending''" "t_type ex_withdrawal = ''withdrawal''"
    "t_id ex_withdrawal = 2"
    by (simp_all add: ex_deposit_def ex_withdrawal_def)
  have tl: "transactions ex_wallet_db = [ex_deposit, ex_withdrawal]"
    by (simp add: ex_wallet_db_def)
  have 1: "users (snd (deposit no_faults 99 7 250 ''mpesa'' ''R3'' ex_wallet_db)) = users ex_wallet_db
     \<and> length (transactions (snd (deposit no_faults 99 7 250 ''mpesa'' ''R3'' ex_wallet_db))) = 3"
    using deposit_and_approval [where f = no_faults and ts = 99 and uid = 7 and amount = 250
        and m = "''mpesa''" and r = "''R3''" and d = ex_wallet_db] tl
    by (simp add: no_faults_def)
  have 2: "map_option balance (users (snd (approve no_faults ''admin'' 1 ex_wallet_db)) 7) = Some 10150
     \<and> map t_status (transactions (snd (approve no_faults ''admin'' 1 ex_wallet_db)))
       = [''approved'', ''pending'']"
    using deposit_and_approval [where f = no_faults and tx_id = 1 and d = ex_wallet_db
        and tx = ex_deposit and usr = ?u] u f1 t tl
    by (simp add: no_faults_def)
  have 3: "users (snd (approve no_faults ''admin'' 2 ex_wallet_db)) = users ex_wallet_db
     \<and> map t_status (transactions (snd (approve no_faults ''admin'' 2 ex_wallet_db)))
       = [''pending'', ''approved'']"
    using deposit_and_approval [where f = no_faults and tx_id = 2 and d = ex_wallet_db
        and tx = ex_withdrawal] f2 t tl
    by (simp add: no_faults_def)
  have "users (snd (approve no_faults ''admin'' 1 ex_wallet_db)) \<noteq> users ex_wallet_db"
  proof
    assume "users (snd (approve no_faults ''admin'' 1 ex_wallet_db)) = users ex_wallet_db"
    then have "map_option balance (users (snd (approve no_faults ''admin'' 1 ex_wallet_db)) 7)
      = map_option balance (users ex_wallet_db 7)"
      by simp
    with 2 u show False by auto
  qed
  then have 4: "\<exists>t. find (\<lambda>t. t_id t = 1) (transactions ex_wallet_db) = Some t
          \<and> t_status t = ''pending'' \<and> t_type t = ''deposit''"
    using deposit_and_approval [where f = no_faults and tx_id = 1 and d = ex_wallet_db
        and rl = "''admin''"]
    by blast
  have 5: "map_option balance
      (users (snd (withdraw no_faults 99 7 100 ''mpesa'' ''R4'' ex_wallet_db)) 7) = Some 9800"
    using deposit_and_approval [where f = no_faults and ts = 99 and uid = 7 and amount = 100
        and m = "''mpesa''" and r = "''R4''" and d = ex_wallet_db and usr = ?u] u
    by (simp add: no_faults_def)
  show ?thesis
    using 1 2 3 4 5 by simp
qed

section \<open>One aggregation step\<close>

text \<open>
  C3. An aggregation step on a series, with
  \<open>periodStart = floor(now / timeframeSeconds) * timeframeSeconds\<close>: when the series is
  empty or its last candle is older than \<open>periodStart\<close>, a new candle with
  open = high = low = close = price is appended (and the oldest candle leaves a series
  that already holds 200); otherwise the last candle is updated in place, with
  high = max(high, price), low = min(low, price), close = price, and its open and its time
  unchanged, and the candles before it untouched.
\<close>

theorem aggregation_step:
  "0 < tf \<Longrightarrow>
   (let periodStart = \<lfloor>real_of_int now / real_of_int tf\<rfloor> * tf;
        fresh = \<lparr>c_time = periodStart, c_open = price, c_high = price, c_low = price,
                 c_close = price\<rparr>
    in (candles = [] \<or> c_time (last candles) < periodStart \<longrightarrow>
          update_candles candles tf price now =
            (if length candles < 200 then candles else tl candles) @ [fresh])
     \<and> (candles \<noteq> [] \<and> \<not> c_time (last candles) < periodStart \<longrightarrow>
          update_candles candles tf price now =
            butlast candles @
              [(last candles)\<lparr>c_high := max (c_high (last candles)) price,
                              c_low := min (c_low (last candles)) price,
                              c_close := price\<rparr>]
          \<and> c_open (last (update_candles candles tf price now)) = c_open (last candles)
          \<and> c_time (last (update_candles candles tf price now)) = c_time (last candles)))"
proof -
  have fl: "\<lfloor>real_of_int now / real_of_int tf\<rfloor> = now div tf"
    by (rule floor_divide_of_int_eq)
  show ?thesis
    unfolding Let_def fl
    using update_candles_push [of candles now tf price]
      update_candles_merge [of candles now tf price]
    by auto
qed

theorem aggregation_step_witness:
  "update_candles [] 60 1.5 125 =
     [\<lparr>c_time = 120, c_open = 1.5, c_high = 1.5, c_low = 1.5, c_close = 1.5\<rparr>]
   \<and> update_candles [ex_candle] 60 1.7 130 =
     [\<lparr>c_time = 120, c_open = 1.5, c_high = 1.7, c_low = 1.4, c_close = 1.7\<rparr>]
   \<and> update_candles [ex_candle] 60 1.7 185 =
     [ex_candle, \<lparr>c_time = 180, c_open = 1.7, c_high = 1.7, c_low = 1.7, c_close = 1.7\<rparr>]"
proof -
  have fl: "\<lfloor>(125::real) / 60\<rfloor> = 2" "\<lfloor>(130::real) / 60\<rfloor> = 2" "\<lfloor>(185::real) / 60\<rfloor> = 3"
    using floor_divide_of_int_eq [where ?'a = real, of 125 60]
      floor_divide_of_int_eq [where ?'a = real, of 130 60]
      floor_divide_of_int_eq [where ?'a = real, of 185 60]
    by simp_all
  have 1: "update_candles [] 60 1.5 125 =
     [\<lparr>c_time = 120, c_open = 1.5, c_high = 1.5, c_low = 1.5, c_close = 1.5\<rparr>]"
    using aggregation_step [where tf = 60 and now = 125 and candles = "[]" and price = "1.5"] fl
    by (simp add: Let_def)
  have 2: "update_candles [ex_candle] 60 1.7 130 =
     [\<lparr>c_time = 120, c_open = 1.5, c_high = 1.7, c_low = 1.4, c_close = 1.7\<rparr>]"
    using aggregation_step [where tf = 60 and now = 130 and candles = "[ex_candle]"
        and price = "1.7"] fl
    by (simp add: Let_def) (simp add: ex_candle_def)
  have 3: "update_candles [ex_candle] 60 1.7 185 =
     [ex_candle, \<lparr>c_time = 180, c_open = 1.7, c_high = 1.7, c_low = 1.7, c_close = 1.7\<rparr>]"
    using aggregation_step [where tf = 60 and now = 185 and candles = "[ex_candle]"
        and price = "1.7"] fl
    by (simp add: Let_def) (simp add: ex_candle_def)
  show ?thesis using 1 2 3 by simp
qed

section \<open>The price step and its guard\<close>

text \<open>
  C5, as the claim states it, fails: a stored price that is a number but not a positive
  one is not reset. With the price of GOLD at -2 and a draw of 0.75, the step moves it to
  -2.0005, not to the default 2034.50.
\<close>

theorem price_guard_counterexample:
  "prices ex_negative ''GOLD'' = Some (- 2) \<and> \<not> (0::real) < - 2
   \<and> prices (tick_asset ex_rnd ex_clock ''GOLD'' ex_negative) ''GOLD'' = Some (- 2.0005)
   \<and> default_price ''GOLD'' = 2034.5
   \<and> prices (tick_asset ex_rnd ex_clock ''GOLD'' ex_negative) ''GOLD''
       \<noteq> Some (default_price ''GOLD'')"
  by (simp add: prices_tick_asset ex_negative_def ex_rnd_def default_price_def defaults_def
      volatility_def)

text \<open>
  C5, amended. In the price step of an instrument, a stored price that is not a number
  (\<^verbatim>\<open>NaN\<close> included) is reset to the instrument's default, the rest of the market is left
  as it is and no error is raised. A stored number, whatever its sign, is advanced by
  \<open>(r - 0.5) * (currentPrice * volatility)\<close> for the draw \<open>r\<close>; with \<open>r\<close> in \<open>[0, 1)\<close> and
  a positive price the perturbation lies in \<open>[-0.5, 0.5) * volatility * currentPrice\<close>.
  The default of each listed instrument is its entry in the table.
\<close>

theorem price_step:
  "(prices m a = None \<longrightarrow>
      tick_asset rnd dn a m = m\<lparr>prices := (prices m)(a \<mapsto> default_price a)\<rparr>)
   \<and> (a \<in> set assets \<longrightarrow> map_of defaults a = Some (default_price a))
   \<and> (prices m a = Some p \<longrightarrow>
        prices (tick_asset rnd dn a m) a = Some (p + (rnd a - 0.5) * (p * volatility a))
        \<and> (0 \<le> rnd a \<and> rnd a < 1 \<and> 0 < p \<longrightarrow>
             - 0.5 * (volatility a * p) \<le> (rnd a - 0.5) * (p * volatility a)
             \<and> (rnd a - 0.5) * (p * volatility a) < 0.5 * (volatility a * p)))"
proof (intro conjI impI)
  assume "prices m a = None"
  then show "tick_asset rnd dn a m = m\<lparr>prices := (prices m)(a \<mapsto> default_price a)\<rparr>"
    by (simp add: tick_asset_def)
next
  assume "a \<in> set assets"
  then show "map_of defaults a = Some (default_price a)"
    by (auto simp: assets_def defaults_def default_price_def)
next
  assume "prices m a = Some p"
  then show "prices (tick_asset rnd dn a m) a = Some (p + (rnd a - 0.5) * (p * volatility a))"
    by (simp add: prices_tick_asset)
next
  assume h: "0 \<le> rnd a \<and> rnd a < 1 \<and> 0 < p"
  have v: "0 < volatility a"
    by (simp add: volatility_def)
  with h have pv: "0 < p * volatility a"
    by simp
  from h have "- 0.5 \<le> rnd a - 0.5"
    by simp
  then have "- 0.5 * (p * volatility a) \<le> (rnd a - 0.5) * (p * volatility a)"
    using pv by (intro mult_right_mono) simp_all
  then show "- 0.5 * (volatility a * p) \<le> (rnd a - 0.5) * (p * volatility a)"
    by (simp add: mult.commute)
  from h have "rnd a - 0.5 < 0.5"
    by simp
  then have "(rnd a - 0.5) * (p * volatility a) < 0.5 * (p * volatility a)"
    using pv by (intro mult_strict_right_mono) simp_all
  then show "(rnd a - 0.5) * (p * volatility a) < 0.5 * (volatility a * p)"
    by (simp add: mult.commute)
qed

theorem price_step_witness:
  "tick_asset ex_rnd ex_clock ''EUR/USD'' ex_corrupt
     = ex_corrupt\<lparr>prices := (prices ex_corrupt)(''EUR/USD'' \<mapsto> 1.08542)\<rparr>
   \<and> map_of defaults ''EUR/USD'' = Some 1.08542
   \<and> prices (tick_asset ex_rnd ex_clock ''GOLD'' init_market) ''GOLD'' = Some 2035.008625
   \<and> - 0.5 * (volatility ''GOLD'' * 2034.5) \<le> (ex_rnd ''GOLD'' - 0.5) * (2034.5 * volatility ''GOLD'')
   \<and> (ex_rnd ''GOLD'' - 0.5) * (2034.5 * volatility ''GOLD'') < 0.5 * (volatility ''GOLD'' * 2034.5)"
proof -
  have d: "default_price ''EUR/USD'' = 1.08542"
    by (simp add: default_price_def defaults_def)
  have c: "prices ex_corrupt ''EUR/USD'' = None"
    by (simp add: ex_corrupt_def)
  have g: "prices init_market ''GOLD'' = Some 2034.5"
    by (simp add: init_market_def defaults_def)
  have a: "''EUR/USD'' \<in> set assets"
    by (simp add: assets_def)
  have r: "0 \<le> ex_rnd ''GOLD'' \<and> ex_rnd ''GOLD'' < 1"
    by (simp add: ex_rnd_def)
  have 1: "tick_asset ex_rnd ex_clock ''EUR/USD'' ex_corrupt
     = ex_corrupt\<lparr>prices := (prices ex_corrupt)(''EUR/USD'' \<mapsto> 1.08542)\<rparr>
     \<and> map_of defaults ''EUR/USD'' = Some 1.08542"
    using price_step [where m = ex_corrupt and a = "''EUR/USD''" and rnd = ex_rnd
        and dn = ex_clock] c a d
    by simp
  have 2: "prices (tick_asset ex_rnd ex_clock ''GOLD'' init_market) ''GOLD''
       = Some (2034.5 + (ex_rnd ''GOLD'' - 0.5) * (2034.5 * volatility ''GOLD''))
   \<and> - 0.5 * (volatility ''GOLD'' * 2034.5) \<le> (ex_rnd ''GOLD'' - 0.5) * (2034.5 * volatility ''GOLD'')
   \<and> (ex_rnd ''GOLD'' - 0.5) * (2034.5 * volatility ''GOLD'') < 0.5 * (volatility ''GOLD'' * 2034.5)"
    using price_step [where m = init_market and a = "''GOLD''" and rnd = ex_rnd
        and dn = ex_clock and p = "2034.5"] g r
    by simp
  have 3: "2034.5 + (ex_rnd ''GOLD'' - 0.5) * (2034.5 * volatility ''GOLD'') = 2035.008625"
    by (simp add: ex_rnd_def volatility_def)
  from 2 have "prices (tick_asset ex_rnd ex_clock ''GOLD'' init_market) ''GOLD''
       = Some (2034.5 + (ex_rnd ''GOLD'' - 0.5) * (2034.5 * volatility ''GOLD''))"
    by (rule conjunct1)
  then have 4: "prices (tick_asset ex_rnd ex_clock ''GOLD'' init_market) ''GOLD''
       = Some 2035.008625"
    by (simp only: 3)
  from 2 have 5: "- 0.5 * (volatility ''GOLD'' * 2034.5) \<le> (ex_rnd ''GOLD'' - 0.5) * (2034.5 * volatility ''GOLD'')
   \<and> (ex_rnd ''GOLD'' - 0.5) * (2034.5 * volatility ''GOLD'') < 0.5 * (volatility ''GOLD'' * 2034.5)"
    by (rule conjunct2)
  show ?thesis
    using 1 4 5 by blast
qed

section \<open>Aggregation updates per tick\<close>

text \<open>
  C8, as the claim states it, fails on the tick that heals a damaged price: with the price
  of EUR/USD not a number, the tick resets the price to 1.08542 and leaves the one-minute
  series of EUR/USD empty; an aggregation update with that price would have opened a
  candle.
\<close>

theorem every_series_updated_counterexample:
  "''EUR/USD'' \<in> set assets \<and> (''1m'', 60) \<in> set timeframes
   \<and> prices (tick_market ex_rnd ex_clock ex_corrupt) ''EUR/USD'' = Some 1.08542
   \<and> candleData (tick_market ex_rnd ex_clock ex_corrupt) (''EUR/USD'', ''1m'') = []
   \<and> candleData (tick_market ex_rnd ex_clock ex_corrupt) (''EUR/USD'', ''1m'') \<noteq>
       update_candles (candleData ex_corrupt (''EUR/USD'', ''1m'')) 60 1.08542
         (ex_clock ''EUR/USD'' div 1000)"
proof -
  have a: "''EUR/USD'' \<in> set assets" and t: "(''1m'', 60) \<in> set timeframes"
    by (simp_all add: assets_def timeframes_def)
  have p: "prices ex_corrupt ''EUR/USD'' = None"
    and c: "candleData ex_corrupt (''EUR/USD'', ''1m'') = []"
    by (simp_all add: ex_corrupt_def init_market_def)
  have 1: "prices (tick_market ex_rnd ex_clock ex_corrupt) ''EUR/USD'' = Some 1.08542"
    using a p by (simp add: prices_tick_market prices_tick_asset default_price_def defaults_def)
  have 2: "candleData (tick_market ex_rnd ex_clock ex_corrupt) (''EUR/USD'', ''1m'') = []"
    using a p c by (simp add: candleData_tick_market candleData_tick_asset)
  have 3: "candleData (tick_market ex_rnd ex_clock ex_corrupt) (''EUR/USD'', ''1m'') \<noteq>
       update_candles (candleData ex_corrupt (''EUR/USD'', ''1m'')) 60 1.08542
         (ex_clock ''EUR/USD'' div 1000)"
    unfolding 2 c using update_candles_not_Nil [of 60 "1.08542" "ex_clock ''EUR/USD'' div 1000"]
    by simp
  show ?thesis
    using a t 1 2 3 by blast
qed

text \<open>
  C8, amended. On every tick, for every listed instrument whose stored price is a number
  when its turn comes, every timeframe series of that instrument receives exactly one
  aggregation update, with the instrument's new price and the clock read in its turn; no
  timeframe is skipped and none is coalesced with another. For an instrument whose stored
  price is not a number, the tick resets the price to the default and leaves all of its
  series as they were.
\<close>

theorem every_series_updated:
  "a \<in> set assets \<Longrightarrow> (k, tf) \<in> set timeframes \<Longrightarrow>
     (prices m a = Some p \<longrightarrow>
        candleData (tick_market rnd dn m) (a, k) =
          update_candles (candleData m (a, k)) tf
            (p + (rnd a - 0.5) * (p * volatility a)) (dn a div 1000)
        \<and> prices (tick_market rnd dn m) a = Some (p + (rnd a - 0.5) * (p * volatility a)))
     \<and> (prices m a = None \<longrightarrow>
        candleData (tick_market rnd dn m) (a, k) = candleData m (a, k)
        \<and> prices (tick_market rnd dn m) a = Some (default_price a))"
  by (simp add: candleData_tick_market prices_tick_market candleData_tick_asset
      prices_tick_asset map_of_timeframes)

theorem every_series_updated_witness:
  "candleData (tick_market ex_rnd ex_clock init_market) (''GOLD'', ''5m'') =
     [\<lparr>c_time = 0, c_open = 2035.008625, c_high = 2035.008625, c_low = 2035.008625,
       c_close = 2035.008625\<rparr>]
   \<and> prices (tick_market ex_rnd ex_clock init_market) ''GOLD'' = Some 2035.008625
   \<and> candleData (tick_market ex_rnd ex_clock ex_corrupt) (''EUR/USD'', ''5m'') = []
   \<and> prices (tick_market ex_rnd ex_clock ex_corrupt) ''EUR/USD'' = Some 1.08542"
proof -
  have a: "''GOLD'' \<in> set assets" "''EUR/USD'' \<in> set assets"
    and t: "(''5m'', 300) \<in> set timeframes"
    by (simp_all add: assets_def timeframes_def)
  have g: "prices init_market ''GOLD'' = Some 2034.5"
    and e: "candleData init_market (''GOLD'', ''5m'') = []"
    by (simp_all add: init_market_def defaults_def)
  have p: "prices ex_corrupt ''EUR/USD'' = None"
    and c: "candleData ex_corrupt (''EUR/USD'', ''5m'') = []"
    by (simp_all add: ex_corrupt_def init_market_def)
  have n: "2034.5 + (ex_rnd ''GOLD'' - 0.5) * (2034.5 * volatility ''GOLD'') = 2035.008625"
    by (simp add: ex_rnd_def volatility_def)
  have d: "default_price ''EUR/USD'' = 1.08542"
    by (simp add: default_price_def defaults_def)
  have u: "update_candles [] 300 2035.008625 (ex_clock ''GOLD'' div 1000) =
     [\<lparr>c_time = 0, c_open = 2035.008625, c_high = 2035.008625, c_low = 2035.008625,
       c_close = 2035.008625\<rparr>]"
    by (simp add: update_candles_def ex_clock_def Let_def)
  from every_series_updated [OF a(1) t, where m = init_market and p = "2034.5"
      and rnd = ex_rnd and dn = ex_clock] g
  have "candleData (tick_market ex_rnd ex_clock init_market) (''GOLD'', ''5m'') =
          update_candles (candleData init_market (''GOLD'', ''5m'')) 300
            (2034.5 + (ex_rnd ''GOLD'' - 0.5) * (2034.5 * volatility ''GOLD''))
            (ex_clock ''GOLD'' div 1000)
        \<and> prices (tick_market ex_rnd ex_clock init_market) ''GOLD''
          = Some (2034.5 + (ex_rnd ''GOLD'' - 0.5) * (2034.5 * volatility ''GOLD''))"
    by blast
  then have 1: "candleData (tick_market ex_rnd ex_clock init_market) (''GOLD'', ''5m'') =
     [\<lparr>c_time = 0, c_open = 2035.008625, c_high = 2035.008625, c_low = 2035.008625,
       c_close = 2035.008625\<rparr>]
     \<and> prices (tick_market ex_rnd ex_clock init_market) ''GOLD'' = Some 2035.008625"
    by (simp only: n e u)
  from every_series_updated [OF a(2) t, where m = ex_corrupt and rnd = ex_rnd
      and dn = ex_clock] p
  have "candleData (tick_market ex_rnd ex_clock ex_corrupt) (''EUR/USD'', ''5m'')
          = candleData ex_corrupt (''EUR/USD'', ''5m'')
        \<and> prices (tick_market ex_rnd ex_clock ex_corrupt) ''EUR/USD''
          = Some (default_price ''EUR/USD'')"
    by blast
  then have 2: "candleData (tick_market ex_rnd ex_clock ex_corrupt) (''EUR/USD'', ''5m'') = []
   \<and> prices (tick_market ex_rnd ex_clock ex_corrupt) ''EUR/USD'' = Some 1.08542"
    by (simp only: c d)
  show ?thesis
    using 1 2 by blast
qed

section \<open>Invariants of the candle series\<close>

text \<open>
  C4. In every market reached from the initial one by any sequence of ticks (any draws, any
  clock readings), every series of every timeframe satisfies: each candle has
  low \<open>\<le>\<close> open \<open>\<le>\<close> high and low \<open>\<le>\<close> close \<open>\<le>\<close> high; each start time is a multiple of the
  timeframe's duration; the start times increase strictly along the series; and the series
  holds at most 200 candles. When a candle is pushed onto a series of 200, the candle that
  leaves is the first, the oldest one.
\<close>

theorem candle_series_invariants:
  "(k, tf) \<in> set timeframes \<Longrightarrow>
     (let cs = candleData (run_ticks ticks init_market) (a, k)
      in (\<forall>c \<in> set cs. c_low c \<le> c_open c \<and> c_open c \<le> c_high c
                        \<and> c_low c \<le> c_close c \<and> c_close c \<le> c_high c
                        \<and> c_time c mod tf = 0)
         \<and> sorted_wrt (<) (map c_time cs)
         \<and> length cs \<le> 200)
     \<and> (length candles = 200 \<and> c_time (last candles) < (now div tf) * tf \<longrightarrow>
          update_candles candles tf price now =
            tl candles @
              [\<lparr>c_time = (now div tf) * tf, c_open = price, c_high = price, c_low = price,
                c_close = price\<rparr>])"
proof -
  assume t: "(k, tf) \<in> set timeframes"
  have "series_ok tf (candleData (run_ticks ticks init_market) (a, k))"
    using t series_ok_init by (rule series_ok_run_ticks)
  then have 1: "let cs = candleData (run_ticks ticks init_market) (a, k)
      in (\<forall>c \<in> set cs. c_low c \<le> c_open c \<and> c_open c \<le> c_high c
                        \<and> c_low c \<le> c_close c \<and> c_close c \<le> c_high c
                        \<and> c_time c mod tf = 0)
         \<and> sorted_wrt (<) (map c_time cs)
         \<and> length cs \<le> 200"
    by (simp add: series_ok_def candle_ok_def list_all_iff Let_def)
  have 2: "update_candles candles tf price now =
            tl candles @
              [\<lparr>c_time = (now div tf) * tf, c_open = price, c_high = price, c_low = price,
                c_close = price\<rparr>]"
    if "length candles = 200 \<and> c_time (last candles) < (now div tf) * tf"
    using that by (simp add: update_candles_push)
  from 1 2 show ?thesis
    by blast
qed

theorem candle_series_invariants_witness:
  "(let cs = candleData (run_ticks [(ex_rnd, ex_clock), (ex_rnd, ex_clock)] init_market)
               (''GOLD'', ''1m'')
    in (\<forall>c \<in> set cs. c_low c \<le> c_open c \<and> c_open c \<le> c_high c
                      \<and> c_low c \<le> c_close c \<and> c_close c \<le> c_high c
                      \<and> c_time c mod 60 = 0)
       \<and> sorted_wrt (<) (map c_time cs)
       \<and> length cs \<le> 200)
   \<and> update_candles (replicate 200 ex_candle) 60 1.7 185 =
       tl (replicate 200 ex_candle) @
         [\<lparr>c_time = 180, c_open = 1.7, c_high = 1.7, c_low = 1.7, c_close = 1.7\<rparr>]"
proof -
  have t: "(''1m'', 60) \<in> set timeframes"
    by (simp add: timeframes_def)
  have l: "length (replicate 200 ex_candle) = 200
      \<and> c_time (last (replicate 200 ex_candle)) < (185 div 60) * 60"
    by (simp add: ex_candle_def)
  have n: "(185 div 60) * 60 = (180::int)"
    by simp
  show ?thesis
    using candle_series_invariants [OF t, where ticks = "[(ex_rnd, ex_clock), (ex_rnd, ex_clock)]"
        and a = "''GOLD''" and candles = "replicate 200 ex_candle" and now = 185
        and price = "1.7"] l
    unfolding n by blast
qed

end
